theory Spec2Isabelle
  imports Complex_Main "HOL-Library.AList"
begin

section \<open>JSON values as the server receives them\<close>

text \<open>
  The request body of the verification endpoint is whatever the JSON body parser
  produced: null, a boolean, a number, a string, an array or an object. A JavaScript
  \<^verbatim>\<open>undefined\<close> (a missing property, a missing body) is \<open>None\<close> of
  \<open>json option\<close>. Numbers are the finite values a JSON text can carry; strings
  are lists of code units.
\<close>

datatype json =
    JNull
  | JBool bool
  | JNum rat
  | JStr string
  | JArr "json list"
  | JObj "(string \<times> json) list"

text \<open>Property read \<^verbatim>\<open>obj[key]\<close> on an object that came out of a JSON text.\<close>

definition get_prop :: "(string \<times> json) list \<Rightarrow> string \<Rightarrow> json option" where
  "get_prop kv k = map_of kv k"

section \<open>The regular expressions of the schema\<close>

text \<open>
  Both patterns of \<^verbatim>\<open>bankVerificationSchema\<close> are a sequence of character
  classes with a bounded repetition each, between \<^verbatim>\<open>^\<close> and \<^verbatim>\<open>$\<close>
  (no flags, so the anchors are the two ends of the input):
  \<^verbatim>\<open>/^\d{9,18}$/\<close> and \<^verbatim>\<open>/^[A-Z]{4}0[A-Z0-9]{6}$/\<close>.
\<close>

datatype char_class =
    Digit           \<comment> \<open>\<^verbatim>\<open>\d\<close>\<close>
  | UpperAZ         \<comment> \<open>\<^verbatim>\<open>[A-Z]\<close>\<close>
  | UpperAZ_Digit   \<comment> \<open>\<^verbatim>\<open>[A-Z0-9]\<close>\<close>
  | Literal char

type_synonym regex = "(char_class \<times> nat \<times> nat) list"

definition is_digit :: "char \<Rightarrow> bool" where
  "is_digit c = (48 \<le> (of_char c :: nat) \<and> (of_char c :: nat) \<le> 57)"

definition is_upper :: "char \<Rightarrow> bool" where
  "is_upper c = (65 \<le> (of_char c :: nat) \<and> (of_char c :: nat) \<le> 90)"

fun in_class :: "char_class \<Rightarrow> char \<Rightarrow> bool" where
  "in_class Digit c = is_digit c"
| "in_class UpperAZ c = is_upper c"
| "in_class UpperAZ_Digit c = (is_upper c \<or> is_digit c)"
| "in_class (Literal l) c = (c = l)"

text \<open>
  \<^verbatim>\<open>regex.test(s)\<close> for an anchored pattern: the first atom takes between
  \<open>lo\<close> and \<open>hi\<close> characters of its class and the rest of the pattern has to match
  the rest of the input, up to its end.
\<close>

fun regex_test :: "regex \<Rightarrow> string \<Rightarrow> bool" where
  "regex_test [] s = (s = [])"
| "regex_test ((c, lo, hi) # r) s =
     list_ex (\<lambda>k. k \<le> length s \<and> list_all (in_class c) (take k s) \<and> regex_test r (drop k s))
       [lo..<Suc hi]"

definition accountNumber_regex :: regex where
  "accountNumber_regex = [(Digit, 9, 18)]"

definition ifscCode_regex :: regex where
  "ifscCode_regex = [(UpperAZ, 4, 4), (Literal CHR ''0'', 1, 1), (UpperAZ_Digit, 6, 6)]"

section \<open>Schema validation\<close>

text \<open>
  A validation issue carries the issue code, the path of the offending value and the
  message when the schema supplies one (the library's default wording is not modelled).
\<close>

datatype path_seg = Key string | Idx nat

datatype issue_code = invalid_type | invalid_string | too_small | too_big | invalid_enum_value

datatype issue = Issue (code: issue_code) (path: "path_seg list") (message: "string option")

type_synonym 'a parsed = "issue list + 'a"

definition errs :: "'a parsed \<Rightarrow> issue list" where
  "errs r = (case r of Inl es \<Rightarrow> es | Inr _ \<Rightarrow> [])"

text \<open>
  Parsing the keys of an object: every key is parsed, the issues of all keys are
  collected in key order, and the object is valid when there are none.
\<close>

fun ap :: "('a \<Rightarrow> 'b) parsed \<Rightarrow> 'a parsed \<Rightarrow> 'b parsed" where
  "ap (Inr f) (Inr x) = Inr (f x)"
| "ap (Inl es) (Inr x) = Inl es"
| "ap (Inr f) (Inl es) = Inl es"
| "ap (Inl es) (Inl es') = Inl (es @ es')"

datatype string_check =
    Regex regex string
  | MinLen nat
  | MaxLen nat
  | Url "string \<Rightarrow> bool"

fun string_check_issues :: "path_seg list \<Rightarrow> string \<Rightarrow> string_check \<Rightarrow> issue list" where
  "string_check_issues p s (Regex r msg) =
     (if regex_test r s then [] else [Issue invalid_string p (Some msg)])"
| "string_check_issues p s (MinLen n) =
     (if length s < n then [Issue too_small p None] else [])"
| "string_check_issues p s (MaxLen n) =
     (if length s > n then [Issue too_big p None] else [])"
| "string_check_issues p s (Url is_url) =
     (if is_url s then [] else [Issue invalid_string p None])"

text \<open>
  \<^verbatim>\<open>z.string()\<close> with its checks: a value that is not a string is one
  \<open>invalid_type\<close> issue; on a string every check runs and every failing check adds
  its issue. The \<^verbatim>\<open>.url()\<close> check asks the platform's URL parser
  (\<^verbatim>\<open>new URL(s)\<close> does not throw), which is a parameter of the model.
\<close>

definition z_string :: "string_check list \<Rightarrow> path_seg list \<Rightarrow> json option \<Rightarrow> string parsed" where
  "z_string checks p v =
     (case v of
        Some (JStr s) \<Rightarrow>
          (let es = concat (map (string_check_issues p s) checks)
           in if es = [] then Inr s else Inl es)
      | _ \<Rightarrow> Inl [Issue invalid_type p None])"

text \<open>\<^verbatim>\<open>z.number().min(0)\<close>\<close>

definition z_number_min0 :: "path_seg list \<Rightarrow> json option \<Rightarrow> rat parsed" where
  "z_number_min0 p v =
     (case v of
        Some (JNum x) \<Rightarrow> (if x < 0 then Inl [Issue too_small p None] else Inr x)
      | _ \<Rightarrow> Inl [Issue invalid_type p None])"

text \<open>\<^verbatim>\<open>.optional()\<close>: undefined is accepted as it is, anything else goes to the inner schema.\<close>

definition z_optional :: "(json option \<Rightarrow> 'a parsed) \<Rightarrow> json option \<Rightarrow> 'a option parsed" where
  "z_optional inner v =
     (case v of
        None \<Rightarrow> Inr None
      | Some _ \<Rightarrow> (case inner v of Inl es \<Rightarrow> Inl es | Inr x \<Rightarrow> Inr (Some x)))"

text \<open>\<^verbatim>\<open>.default(d)\<close>: undefined is replaced by the default before the inner schema runs.\<close>

definition z_default :: "json \<Rightarrow> (json option \<Rightarrow> 'a parsed) \<Rightarrow> json option \<Rightarrow> 'a parsed" where
  "z_default d inner v = (case v of None \<Rightarrow> inner (Some d) | Some _ \<Rightarrow> inner v)"

text \<open>\<^verbatim>\<open>z.array(z.string())\<close>: every element is parsed under its index.\<close>

fun z_elems :: "path_seg list \<Rightarrow> nat \<Rightarrow> json list \<Rightarrow> string list parsed" where
  "z_elems p i [] = Inr []"
| "z_elems p i (x # xs) =
     ap (ap (Inr (#)) (z_string [] (p @ [Idx i]) (Some x))) (z_elems p (Suc i) xs)"

definition z_string_array :: "path_seg list \<Rightarrow> json option \<Rightarrow> string list parsed" where
  "z_string_array p v =
     (case v of
        Some (JArr xs) \<Rightarrow> z_elems p 0 xs
      | _ \<Rightarrow> Inl [Issue invalid_type p None])"

text \<open>\<^verbatim>\<open>z.enum(['aadhar', 'pan', 'license'])\<close>\<close>

datatype document_type = aadhar | pan | license

definition z_document_type :: "path_seg list \<Rightarrow> json option \<Rightarrow> document_type parsed" where
  "z_document_type p v =
     (case v of
        Some (JStr s) \<Rightarrow>
          (if s = ''aadhar'' then Inr aadhar
           else if s = ''pan'' then Inr pan
           else if s = ''license'' then Inr license
           else Inl [Issue invalid_enum_value p None])
      | _ \<Rightarrow> Inl [Issue invalid_type p None])"

subsection \<open>The shape of \<^verbatim>\<open>bankVerificationSchema\<close>\<close>

record location =
  city :: string
  state :: string
  country :: string

record socials =
  instagram :: "string option"
  facebook :: "string option"
  website :: "string option"

record bank_request =
  accountNumber :: string
  ifscCode :: string
  bankName :: string
  name :: string
  bio :: "string option"
  location :: location
  specialties :: "string list option"
  experience :: "rat option"
  socials :: "socials option"
  documentType :: document_type
  documentNumber :: string

definition z_location :: "path_seg list \<Rightarrow> json option \<Rightarrow> location parsed" where
  "z_location p v =
     (case v of
        Some (JObj kv) \<Rightarrow>
          ap (ap (ap (Inr location.make)
            (z_string [MinLen 1, MaxLen 100] (p @ [Key ''city'']) (get_prop kv ''city'')))
            (z_string [MinLen 1, MaxLen 100] (p @ [Key ''state'']) (get_prop kv ''state'')))
            (z_default (JStr ''India'') (z_string [] (p @ [Key ''country''])) (get_prop kv ''country''))
      | _ \<Rightarrow> Inl [Issue invalid_type p None])"

definition z_socials :: "(string \<Rightarrow> bool) \<Rightarrow> path_seg list \<Rightarrow> json option \<Rightarrow> socials parsed" where
  "z_socials is_url p v =
     (case v of
        Some (JObj kv) \<Rightarrow>
          ap (ap (ap (Inr socials.make)
            (z_optional (z_string [] (p @ [Key ''instagram''])) (get_prop kv ''instagram'')))
            (z_optional (z_string [] (p @ [Key ''facebook''])) (get_prop kv ''facebook'')))
            (z_optional (z_string [Url is_url] (p @ [Key ''website''])) (get_prop kv ''website''))
      | _ \<Rightarrow> Inl [Issue invalid_type p None])"

definition accountNumber_schema :: "path_seg list \<Rightarrow> json option \<Rightarrow> string parsed" where
  "accountNumber_schema = z_string [Regex accountNumber_regex ''Account number must be 9-18 digits'']"

definition ifscCode_schema :: "path_seg list \<Rightarrow> json option \<Rightarrow> string parsed" where
  "ifscCode_schema = z_string [Regex ifscCode_regex ''Invalid IFSC code format'']"

text \<open>\<^verbatim>\<open>bankVerificationSchema.safeParse(req.body)\<close>\<close>

definition safeParse :: "(string \<Rightarrow> bool) \<Rightarrow> json option \<Rightarrow> bank_request parsed" where
  "safeParse is_url req_body =
     (case req_body of
        Some (JObj kv) \<Rightarrow>
          ap (ap (ap (ap (ap (ap (ap (ap (ap (ap (ap (Inr bank_request.make)
            (accountNumber_schema [Key ''accountNumber''] (get_prop kv ''accountNumber'')))
            (ifscCode_schema [Key ''ifscCode''] (get_prop kv ''ifscCode'')))
            (z_string [MinLen 1, MaxLen 100] [Key ''bankName''] (get_prop kv ''bankName'')))
            (z_string [MinLen 1, MaxLen 200] [Key ''name''] (get_prop kv ''name'')))
            (z_optional (z_string [MaxLen 1000] [Key ''bio'']) (get_prop kv ''bio'')))
            (z_location [Key ''location''] (get_prop kv ''location'')))
            (z_optional (z_string_array [Key ''specialties'']) (get_prop kv ''specialties'')))
            (z_optional (z_number_min0 [Key ''experience'']) (get_prop kv ''experience'')))
            (z_optional (z_socials is_url [Key ''socials'']) (get_prop kv ''socials'')))
            (z_document_type [Key ''documentType''] (get_prop kv ''documentType'')))
            (z_string [MinLen 1] [Key ''documentNumber''] (get_prop kv ''documentNumber''))
      | _ \<Rightarrow> Inl [Issue invalid_type [] None])"

section \<open>The verification endpoint\<close>

type_synonym user_id = nat
type_synonym object_id = nat
type_synonym timestamp = nat

text \<open>
  Modelled from the spec: the Artisan model (\<^verbatim>\<open>models/Artisan.js\<close>) is imported by
  the route but its schema is not part of the sources. The record below is the
  ArtisanRecord of the specification: owner identity, profile fields, and a verification
  sub-object with the verified flag, the document type and number, the bank details and
  the verification timestamp.
\<close>

record bank_details =
  bank_accountNumber :: string
  bank_ifscCode :: string
  bank_bankName :: string

record verification =
  isVerified :: bool
  ver_documentType :: document_type
  ver_documentNumber :: string
  bankDetails :: bank_details
  verifiedAt :: timestamp

record artisan =
  artisan_id :: object_id
  userId :: user_id
  artisan_name :: string
  artisan_bio :: string
  artisan_location :: location
  artisan_specialties :: "string list"
  artisan_experience :: rat
  artisan_socials :: socials
  artisan_verification :: verification

text \<open>
  Modelled from the spec: the record store is a key-by-owner upsert store with at most
  one record per owner identity. \<^verbatim>\<open>Artisan.findOne({ userId })\<close> reads the owner's
  entry and \<^verbatim>\<open>artisan.save()\<close> writes the record under its owner. Either call can
  fail (store unavailable); whether it does is given by the environment.
\<close>

type_synonym store = "user_id \<rightharpoonup> artisan"

definition findOne :: "store \<Rightarrow> user_id \<Rightarrow> artisan option" where
  "findOne st uid = st uid"

definition save :: "artisan \<Rightarrow> store \<Rightarrow> store" where
  "save a st = st(userId a \<mapsto> a)"

datatype store_op = FindOne user_id | Save artisan

text \<open>
  What the handler reads from outside: the clock (\<^verbatim>\<open>new Date()\<close>), the identifier
  a new document gets, and whether the two store calls succeed.
\<close>

record env =
  now :: timestamp
  fresh_id :: object_id
  findOne_succeeds :: bool
  save_succeeds :: bool

record artisan_view =
  view_id :: object_id
  view_name :: string
  view_isVerified :: bool

datatype res_body =
    ErrorDetails string "issue list"      \<comment> \<open>\<^verbatim>\<open>{ error, details }\<close>\<close>
  | ErrorOnly string                      \<comment> \<open>\<^verbatim>\<open>{ error }\<close>\<close>
  | Success bool string artisan_view      \<comment> \<open>\<^verbatim>\<open>{ success, message, artisan }\<close>\<close>

record response =
  status :: nat
  body :: res_body

record outcome =
  sent :: response
  store_after :: store
  store_ops :: "store_op list"

text \<open>
  \<^verbatim>\<open>x || d\<close> on the optional values of the validated payload: an absent value, an
  empty string and the number zero are falsy; arrays and objects are always truthy.
\<close>

definition or_string :: "string option \<Rightarrow> string \<Rightarrow> string" where
  "or_string v d = (case v of None \<Rightarrow> d | Some s \<Rightarrow> if s = [] then d else s)"

definition or_number :: "rat option \<Rightarrow> rat \<Rightarrow> rat" where
  "or_number v d = (case v of None \<Rightarrow> d | Some x \<Rightarrow> if x = 0 then d else x)"

definition or_object :: "'a option \<Rightarrow> 'a \<Rightarrow> 'a" where
  "or_object v d = (case v of None \<Rightarrow> d | Some x \<Rightarrow> x)"

text \<open>The create branch: \<^verbatim>\<open>new Artisan({ ... })\<close>.\<close>

definition new_artisan :: "env \<Rightarrow> user_id \<Rightarrow> bank_request \<Rightarrow> artisan" where
  "new_artisan e uid d =
     \<lparr> artisan_id = fresh_id e,
       userId = uid,
       artisan_name = name d,
       artisan_bio = or_string (bio d) [],
       artisan_location = location d,
       artisan_specialties = or_object (specialties d) [],
       artisan_experience = or_number (experience d) 0,
       artisan_socials = or_object (socials d) \<lparr> instagram = None, facebook = None, website = None \<rparr>,
       artisan_verification =
         \<lparr> isVerified = True,
           ver_documentType = documentType d,
           ver_documentNumber = documentNumber d,
           bankDetails =
             \<lparr> bank_accountNumber = accountNumber d,
               bank_ifscCode = ifscCode d,
               bank_bankName = bankName d \<rparr>,
           verifiedAt = now e \<rparr> \<rparr>"

text \<open>
  The update branch. \<^verbatim>\<open>location\<close> is an object in every validated payload, so
  \<^verbatim>\<open>if (location)\<close> always holds; \<^verbatim>\<open>if (specialties)\<close> and
  \<^verbatim>\<open>if (socials)\<close> hold exactly when the value is there. The new verification
  block is the old one spread and then overridden key by key.
\<close>

definition update_artisan :: "env \<Rightarrow> bank_request \<Rightarrow> artisan \<Rightarrow> artisan" where
  "update_artisan e d a =
     (let a1 = a\<lparr> artisan_name := name d \<rparr>;
          a2 = (case bio d of None \<Rightarrow> a1 | Some b \<Rightarrow> a1\<lparr> artisan_bio := b \<rparr>);
          a3 = a2\<lparr> artisan_location := location d \<rparr>;
          a4 = (case specialties d of None \<Rightarrow> a3 | Some sp \<Rightarrow> a3\<lparr> artisan_specialties := sp \<rparr>);
          a5 = (case experience d of None \<Rightarrow> a4 | Some x \<Rightarrow> a4\<lparr> artisan_experience := x \<rparr>);
          a6 = (case socials d of None \<Rightarrow> a5 | Some so \<Rightarrow> a5\<lparr> artisan_socials := so \<rparr>)
      in a6\<lparr> artisan_verification :=
              (artisan_verification a6)
                \<lparr> isVerified := True,
                  ver_documentType := documentType d,
                  ver_documentNumber := documentNumber d,
                  bankDetails :=
                    \<lparr> bank_accountNumber = accountNumber d,
                      bank_ifscCode = ifscCode d,
                      bank_bankName = bankName d \<rparr>,
                  verifiedAt := now e \<rparr> \<rparr>)"

definition server_error :: response where
  "server_error = \<lparr> status = 500, body = ErrorOnly ''Failed to validate and store form'' \<rparr>"

text \<open>
  \<^verbatim>\<open>router.post('/bank-account', authenticateToken, ...)\<close>, after the authentication
  middleware has put the caller's identity \<open>uid\<close> on the request. A store call that
  throws lands in the \<^verbatim>\<open>catch\<close> block.
\<close>

definition post_bank_account ::
    "(string \<Rightarrow> bool) \<Rightarrow> env \<Rightarrow> user_id \<Rightarrow> json option \<Rightarrow> store \<Rightarrow> outcome" where
  "post_bank_account is_url e uid req_body st =
     (case safeParse is_url req_body of
        Inl issues \<Rightarrow>
          \<lparr> sent = \<lparr> status = 400, body = ErrorDetails ''Validation failed'' issues \<rparr>,
            store_after = st,
            store_ops = [] \<rparr>
      | Inr d \<Rightarrow>
          if \<not> findOne_succeeds e then
            \<lparr> sent = server_error, store_after = st, store_ops = [FindOne uid] \<rparr>
          else
            let a = (case findOne st uid of
                       None \<Rightarrow> new_artisan e uid d
                     | Some found \<Rightarrow> update_artisan e d found)
            in if \<not> save_succeeds e then
                 \<lparr> sent = server_error, store_after = st, store_ops = [FindOne uid, Save a] \<rparr>
               else
                 \<lparr> sent =
                     \<lparr> status = 200,
                       body = Success True ''Form validated and stored successfully''
                         \<lparr> view_id = artisan_id a,
                           view_name = artisan_name a,
                           view_isVerified = isVerified (artisan_verification a) \<rparr> \<rparr>,
                   store_after = save a st,
                   store_ops = [FindOne uid, Save a] \<rparr>)"

section \<open>The client\<close>

subsection \<open>Values on the client\<close>

text \<open>
  On the client an object can also hold \<^verbatim>\<open>undefined\<close> and \<^verbatim>\<open>File\<close>
  objects. An object is the list of its own properties in insertion order.
\<close>

datatype js_file = File string

datatype jsval =
    Undefined
  | Null
  | Bool bool
  | Num rat
  | Str string
  | FileV js_file
  | Arr "jsval list"
  | Obj "(string \<times> jsval) list"

fun of_json :: "json \<Rightarrow> jsval" where
  "of_json JNull = Null"
| "of_json (JBool b) = Bool b"
| "of_json (JNum x) = Num x"
| "of_json (JStr s) = Str s"
| "of_json (JArr xs) = Arr (map of_json xs)"
| "of_json (JObj kv) = Obj (map (\<lambda>(k, v). (k, of_json v)) kv)"

text \<open>
  \<^verbatim>\<open>JSON.stringify(v)\<close>, read back as the receiver parses it: a property whose
  value is undefined is left out, an undefined array element becomes null, a
  \<^verbatim>\<open>File\<close> has no own enumerable property and becomes \<^verbatim>\<open>{}\<close>, and
  \<^verbatim>\<open>undefined\<close> itself gives no text at all.
\<close>

fun JSON_stringify :: "jsval \<Rightarrow> json option" where
  "JSON_stringify Undefined = None"
| "JSON_stringify Null = Some JNull"
| "JSON_stringify (Bool b) = Some (JBool b)"
| "JSON_stringify (Num x) = Some (JNum x)"
| "JSON_stringify (Str s) = Some (JStr s)"
| "JSON_stringify (FileV f) = Some (JObj [])"
| "JSON_stringify (Arr xs) =
     Some (JArr (map (\<lambda>x. case JSON_stringify x of None \<Rightarrow> JNull | Some j \<Rightarrow> j) xs))"
| "JSON_stringify (Obj kv) =
     Some (JObj (concat (map (\<lambda>(k, v). case JSON_stringify v of None \<Rightarrow> [] | Some j \<Rightarrow> [(k, j)]) kv)))"

text \<open>Writing a property, and \<^verbatim>\<open>Object.assign\<close> / object spread of one source.\<close>

definition set_prop :: "string \<Rightarrow> jsval \<Rightarrow> (string \<times> jsval) list \<Rightarrow> (string \<times> jsval) list" where
  "set_prop k v obj = AList.update k v obj"

definition assign :: "(string \<times> jsval) list \<Rightarrow> (string \<times> jsval) list \<Rightarrow> (string \<times> jsval) list" where
  "assign target src = fold (\<lambda>(k, v). set_prop k v) src target"

subsection \<open>The network and promises\<close>

text \<open>The upload kinds \<^verbatim>\<open>'document' | 'image' | 'video'\<close>.\<close>

datatype upload_type = document_upload | image_upload | video_upload

text \<open>A request names its path under \<^verbatim>\<open>API_BASE_URL\<close>.\<close>

datatype request =
    PostFile string js_file upload_type    \<comment> \<open>multipart POST of \<^verbatim>\<open>file\<close> and \<^verbatim>\<open>type\<close>\<close>
  | PostJson string "json option"          \<comment> \<open>POST with a JSON body\<close>

record http_response =
  ok :: bool
  json_body :: "json option"            \<comment> \<open>\<open>None\<close>: \<^verbatim>\<open>response.json()\<close> rejects\<close>

datatype fetch_result = NoResponse | Response http_response

text \<open>
  The network answers the \<open>i\<close>-th request the client issues; the answer says when the
  call settles and whether \<^verbatim>\<open>fetch\<close> rejected or resolved with a response.
\<close>

record reply =
  settled_at :: nat
  fetched :: fetch_result

type_synonym network = "nat \<Rightarrow> request \<Rightarrow> reply"

datatype js_error =
    Error string          \<comment> \<open>\<^verbatim>\<open>new Error(s)\<close> for a string \<open>s\<close>\<close>
  | ErrorOf json          \<comment> \<open>\<^verbatim>\<open>new Error(v)\<close> for a value that is not a string\<close>
  | TypeError             \<comment> \<open>a property read on null\<close>
  | SyntaxError           \<comment> \<open>\<^verbatim>\<open>response.json()\<close> on a body that is no JSON\<close>
  | FetchFailed           \<comment> \<open>\<^verbatim>\<open>fetch\<close> rejected\<close>

datatype 'a settled = Fulfilled 'a | Rejected js_error

text \<open>
  When a promise settles: the tick in which the network call behind it settled, and the
  number of reaction jobs that ran since. A \<^verbatim>\<open>then\<close> and a
  \<^verbatim>\<open>Promise.all\<close> settle one job after the promise they wait for. Of two
  uploads that settle in the same tick, the one issued first is taken to settle first.
\<close>

type_synonym moment = "nat \<times> nat"

definition earlier :: "moment \<Rightarrow> moment \<Rightarrow> bool" where
  "earlier a b = (fst a < fst b \<or> (fst a = fst b \<and> snd a \<le> snd b))"

definition one_job_after :: "moment \<Rightarrow> moment" where
  "one_job_after a = (fst a, Suc (snd a))"

record 'a promise =
  settles :: moment
  result :: "'a settled"

text \<open>\<^verbatim>\<open>promise.then(f)\<close>, where the callback may throw.\<close>

definition then_do :: "('a \<Rightarrow> 'b settled) \<Rightarrow> 'a promise \<Rightarrow> 'b promise" where
  "then_do f p =
     \<lparr> settles = one_job_after (settles p),
       result = (case result p of Fulfilled x \<Rightarrow> f x | Rejected err \<Rightarrow> Rejected err) \<rparr>"

text \<open>
  \<^verbatim>\<open>Promise.all(ps)\<close>: rejected with the reason of the input that rejects first,
  one job after that input; fulfilled with all values, in the order of \<open>ps\<close>, one job
  after the last input, when no input rejects.
\<close>

fun first_rejection :: "'a promise list \<Rightarrow> (moment \<times> js_error) option" where
  "first_rejection [] = None"
| "first_rejection (p # ps) =
     (case result p of
        Fulfilled x \<Rightarrow> first_rejection ps
      | Rejected err \<Rightarrow>
          (case first_rejection ps of
             None \<Rightarrow> Some (settles p, err)
           | Some (m, err') \<Rightarrow>
               if earlier (settles p) m then Some (settles p, err) else Some (m, err')))"

fun last_moment :: "'a promise list \<Rightarrow> moment" where
  "last_moment [] = (0, 0)"
| "last_moment (p # ps) =
     (if earlier (settles p) (last_moment ps) then last_moment ps else settles p)"

fun fulfilled_values :: "'a promise list \<Rightarrow> 'a list" where
  "fulfilled_values [] = []"
| "fulfilled_values (p # ps) =
     (case result p of
        Fulfilled x \<Rightarrow> x # fulfilled_values ps
      | Rejected err \<Rightarrow> fulfilled_values ps)"

definition Promise_all :: "'a promise list \<Rightarrow> 'a list promise" where
  "Promise_all ps =
     (case first_rejection ps of
        Some (m, err) \<Rightarrow> \<lparr> settles = one_job_after m, result = Rejected err \<rparr>
      | None \<Rightarrow> \<lparr> settles = one_job_after (last_moment ps), result = Fulfilled (fulfilled_values ps) \<rparr>)"

subsection \<open>\<^verbatim>\<open>handleResponse\<close> and \<^verbatim>\<open>uploadFile\<close>\<close>

definition truthy :: "json \<Rightarrow> bool" where
  "truthy v =
     (case v of
        JNull \<Rightarrow> False
      | JBool b \<Rightarrow> b
      | JNum x \<Rightarrow> x \<noteq> 0
      | JStr s \<Rightarrow> s \<noteq> []
      | JArr xs \<Rightarrow> True
      | JObj kv \<Rightarrow> True)"

definition new_Error :: "json \<Rightarrow> js_error" where
  "new_Error v = (case v of JStr s \<Rightarrow> Error s | _ \<Rightarrow> ErrorOf v)"

definition handleResponse :: "http_response \<Rightarrow> json settled" where
  "handleResponse response =
     (if \<not> ok response then
        (let error = (case json_body response of None \<Rightarrow> JObj [] | Some j \<Rightarrow> j)
         in case error of
              JNull \<Rightarrow> Rejected TypeError
            | JObj kv \<Rightarrow>
                (case get_prop kv ''message'' of
                   None \<Rightarrow> Rejected (Error ''Something went wrong'')
                 | Some m \<Rightarrow>
                     if truthy m then Rejected (new_Error m)
                     else Rejected (Error ''Something went wrong''))
            | _ \<Rightarrow> Rejected (Error ''Something went wrong''))
      else
        (case json_body response of
           None \<Rightarrow> Rejected SyntaxError
         | Some j \<Rightarrow> Fulfilled j))"

text \<open>
  Every call of \<^verbatim>\<open>fetch\<close> is recorded: the trace is the list of requests issued
  so far, and the next request is the one the network answers at that position.
\<close>

definition fetch :: "network \<Rightarrow> request list \<Rightarrow> request \<Rightarrow> reply \<times> request list" where
  "fetch net trace req = (net (length trace) req, trace @ [req])"

text \<open>
  \<^verbatim>\<open>handleResponse(await fetch(...))\<close>: a rejected \<^verbatim>\<open>fetch\<close> propagates, a
  response goes through \<^verbatim>\<open>handleResponse\<close>.
\<close>

definition settle_fetch :: "fetch_result \<Rightarrow> json settled" where
  "settle_fetch r =
     (case r of
        NoResponse \<Rightarrow> Rejected FetchFailed
      | Response response \<Rightarrow> handleResponse response)"

definition uploadFile ::
    "network \<Rightarrow> request list \<Rightarrow> js_file \<Rightarrow> upload_type \<Rightarrow> json promise \<times> request list" where
  "uploadFile net trace f ty =
     (let (rep, trace') = fetch net trace (PostFile ''/upload'' f ty)
      in (\<lparr> settles = (settled_at rep, 0), result = settle_fetch (fetched rep) \<rparr>, trace'))"

text \<open>The property read \<^verbatim>\<open>res.url\<close> on the value an upload resolved with.\<close>

definition get_url :: "json \<Rightarrow> jsval settled" where
  "get_url res =
     (case res of
        JNull \<Rightarrow> Rejected TypeError
      | JObj kv \<Rightarrow> Fulfilled (case get_prop kv ''url'' of None \<Rightarrow> Undefined | Some u \<Rightarrow> of_json u)
      | _ \<Rightarrow> Fulfilled Undefined)"

subsection \<open>\<^verbatim>\<open>SellerFormData\<close> and \<^verbatim>\<open>sellerApi\<close>\<close>

record address =
  village :: string
  district :: string
  address_state :: string
  pincode :: string

record price_range =
  price_min :: string
  price_max :: string

record pickup_address =
  sameAsMain :: bool
  pickup_address_address :: string

record seller_form_data =
  sf_businessName :: string
  sf_ownerName :: string
  sf_email :: string
  sf_phone :: string
  sf_address :: address
  sf_yearsOfExperience :: string
  sf_profilePhoto :: "js_file option"
  sf_sellerType :: string
  sf_gstNumber :: string
  sf_gstCertificate :: "js_file option"
  sf_aadhaarNumber :: string
  sf_aadhaarProof :: "js_file option"
  sf_panNumber :: string
  sf_categories :: "string list"
  sf_productDescription :: string
  sf_materials :: string
  sf_priceRange :: price_range
  sf_stockQuantity :: string
  sf_productPhotos :: "js_file list"
  sf_pickupAddress :: pickup_address
  sf_dispatchTime :: string
  sf_packagingType :: string
  sf_bankName :: string
  sf_accountNumber :: string
  sf_ifscCode :: string
  sf_upiId :: string
  sf_paymentFrequency :: string
  sf_story :: string
  sf_craftVideo :: "js_file option"

definition file_or_null :: "js_file option \<Rightarrow> jsval" where
  "file_or_null f = (case f of None \<Rightarrow> Null | Some x \<Rightarrow> FileV x)"

text \<open>The own properties of a \<^verbatim>\<open>SellerFormData\<close> object, as \<^verbatim>\<open>...data\<close> copies them.\<close>

definition spread_data :: "seller_form_data \<Rightarrow> (string \<times> jsval) list" where
  "spread_data d =
     [ (''businessName'', Str (sf_businessName d)),
       (''ownerName'', Str (sf_ownerName d)),
       (''email'', Str (sf_email d)),
       (''phone'', Str (sf_phone d)),
       (''address'', Obj [ (''village'', Str (village (sf_address d))),
                           (''district'', Str (district (sf_address d))),
                           (''state'', Str (address_state (sf_address d))),
                           (''pincode'', Str (pincode (sf_address d))) ]),
       (''yearsOfExperience'', Str (sf_yearsOfExperience d)),
       (''profilePhoto'', file_or_null (sf_profilePhoto d)),
       (''sellerType'', Str (sf_sellerType d)),
       (''gstNumber'', Str (sf_gstNumber d)),
       (''gstCertificate'', file_or_null (sf_gstCertificate d)),
       (''aadhaarNumber'', Str (sf_aadhaarNumber d)),
       (''aadhaarProof'', file_or_null (sf_aadhaarProof d)),
       (''panNumber'', Str (sf_panNumber d)),
       (''categories'', Arr (map Str (sf_categories d))),
       (''productDescription'', Str (sf_productDescription d)),
       (''materials'', Str (sf_materials d)),
       (''priceRange'', Obj [ (''min'', Str (price_min (sf_priceRange d))),
                              (''max'', Str (price_max (sf_priceRange d))) ]),
       (''stockQuantity'', Str (sf_stockQuantity d)),
       (''productPhotos'', Arr (map FileV (sf_productPhotos d))),
       (''pickupAddress'', Obj [ (''sameAsMain'', Bool (sameAsMain (sf_pickupAddress d))),
                                 (''address'', Str (pickup_address_address (sf_pickupAddress d))) ]),
       (''dispatchTime'', Str (sf_dispatchTime d)),
       (''packagingType'', Str (sf_packagingType d)),
       (''bankName'', Str (sf_bankName d)),
       (''accountNumber'', Str (sf_accountNumber d)),
       (''ifscCode'', Str (sf_ifscCode d)),
       (''upiId'', Str (sf_upiId d)),
       (''paymentFrequency'', Str (sf_paymentFrequency d)),
       (''story'', Str (sf_story d)),
       (''craftVideo'', file_or_null (sf_craftVideo d)) ]"

text \<open>
  One optional single-file field: when the file is there, one upload is issued and its
  promise, mapped to \<^verbatim>\<open>{ key: res.url }\<close>, is pushed on \<^verbatim>\<open>uploadPromises\<close>.
\<close>

definition url_object :: "string \<Rightarrow> json \<Rightarrow> (string \<times> jsval) list settled" where
  "url_object key res =
     (case get_url res of
        Rejected err \<Rightarrow> Rejected err
      | Fulfilled u \<Rightarrow> Fulfilled [(key, u)])"

definition push_single ::
    "network \<Rightarrow> js_file option \<Rightarrow> upload_type \<Rightarrow> string
       \<Rightarrow> (string \<times> jsval) list promise list \<times> request list
       \<Rightarrow> (string \<times> jsval) list promise list \<times> request list" where
  "push_single net f ty key st =
     (case f of
        None \<Rightarrow> st
      | Some x \<Rightarrow>
          (let (p, trace') = uploadFile net (snd st) x ty
           in (fst st @ [then_do (url_object key) p], trace')))"

text \<open>\<^verbatim>\<open>data.productPhotos.map(photo => uploadFile(photo, 'image'))\<close>\<close>

fun upload_photos ::
    "network \<Rightarrow> request list \<Rightarrow> js_file list \<Rightarrow> json promise list \<times> request list" where
  "upload_photos net trace [] = ([], trace)"
| "upload_photos net trace (photo # photos) =
     (let (p, trace') = uploadFile net trace photo image_upload;
          (ps, trace'') = upload_photos net trace' photos
      in (p # ps, trace''))"

text \<open>\<^verbatim>\<open>results.map(r => r.url)\<close>, which throws at the first null result.\<close>

fun map_url :: "json list \<Rightarrow> jsval list settled" where
  "map_url [] = Fulfilled []"
| "map_url (r # rs) =
     (case get_url r of
        Rejected err \<Rightarrow> Rejected err
      | Fulfilled u \<Rightarrow>
          (case map_url rs of
             Rejected err \<Rightarrow> Rejected err
           | Fulfilled us \<Rightarrow> Fulfilled (u # us)))"

definition urls_object :: "json list \<Rightarrow> (string \<times> jsval) list settled" where
  "urls_object results =
     (case map_url results of
        Rejected err \<Rightarrow> Rejected err
      | Fulfilled us \<Rightarrow> Fulfilled [(''productPhotoUrls'', Arr us)])"

definition push_photos ::
    "network \<Rightarrow> js_file list
       \<Rightarrow> (string \<times> jsval) list promise list \<times> request list
       \<Rightarrow> (string \<times> jsval) list promise list \<times> request list" where
  "push_photos net photos st =
     (if length photos > 0 then
        (let (ps, trace') = upload_photos net (snd st) photos
         in (fst st @ [then_do urls_object (Promise_all ps)], trace'))
      else st)"

text \<open>The upload promises of \<^verbatim>\<open>registerSeller\<close>, in the order the code pushes them.\<close>

definition schedule_uploads ::
    "network \<Rightarrow> seller_form_data \<Rightarrow> (string \<times> jsval) list promise list \<times> request list" where
  "schedule_uploads net d =
     push_single net (sf_craftVideo d) video_upload ''craftVideoUrl''
       (push_photos net (sf_productPhotos d)
         (push_single net (sf_aadhaarProof d) document_upload ''aadhaarProofUrl''
           (push_single net (sf_gstCertificate d) document_upload ''gstCertificateUrl''
             (push_single net (sf_profilePhoto d) image_upload ''profilePhotoUrl'' ([], [])))))"

text \<open>
  \<^verbatim>\<open>{ ...data, ...fileUrls, profilePhoto: undefined, ... }\<close>: the properties of
  the form, then those of \<^verbatim>\<open>fileUrls\<close>, then the five raw file fields set to
  undefined.
\<close>

definition finalData :: "seller_form_data \<Rightarrow> (string \<times> jsval) list \<Rightarrow> (string \<times> jsval) list" where
  "finalData d fileUrls =
     set_prop ''craftVideo'' Undefined
       (set_prop ''productPhotos'' Undefined
         (set_prop ''aadhaarProof'' Undefined
           (set_prop ''gstCertificate'' Undefined
             (set_prop ''profilePhoto'' Undefined
               (assign (assign [] (spread_data d)) fileUrls)))))"

text \<open>
  \<^verbatim>\<open>sellerApi.registerSeller(data)\<close>: what the returned promise settles with, and
  the requests the call has issued. A rejected \<^verbatim>\<open>Promise.all\<close> makes the
  \<^verbatim>\<open>await\<close> throw; otherwise \<^verbatim>\<open>Object.assign({}, ...uploadResults)\<close>
  merges the results and the registration request follows.
\<close>

definition registerSeller :: "network \<Rightarrow> seller_form_data \<Rightarrow> json settled \<times> request list" where
  "registerSeller net d =
     (let (uploadPromises, trace) = schedule_uploads net d
      in case result (Promise_all uploadPromises) of
           Rejected err \<Rightarrow> (Rejected err, trace)
         | Fulfilled uploadResults \<Rightarrow>
             (let fileUrls = fold (\<lambda>src target. assign target src) uploadResults [];
                  (rep, trace') = fetch net trace
                     (PostJson ''/sellers/register'' (JSON_stringify (Obj (finalData d fileUrls))))
              in (settle_fetch (fetched rep), trace')))"

text \<open>\<^verbatim>\<open>sellerApi.verifyBankAccount(ifsc, accountNumber)\<close>\<close>

definition verifyBankAccount_body :: "string \<Rightarrow> string \<Rightarrow> json option" where
  "verifyBankAccount_body ifsc accountNumber' =
     JSON_stringify (Obj [(''ifsc'', Str ifsc), (''accountNumber'', Str accountNumber')])"

definition verifyBankAccount :: "network \<Rightarrow> string \<Rightarrow> string \<Rightarrow> json settled \<times> request list" where
  "verifyBankAccount net ifsc accountNumber' =
     (let (rep, trace) = fetch net []
             (PostJson ''/verify/bank-account'' (verifyBankAccount_body ifsc accountNumber'))
      in (settle_fetch (fetched rep), trace))"

section \<open>The specification's words\<close>

text \<open>
  The routing code as the specification words it: 4 uppercase letters, then a literal
  zero, then 6 alphanumeric characters, where a letter of either case and a digit are
  alphanumeric.
\<close>

definition is_lower :: "char \<Rightarrow> bool" where
  "is_lower c = (97 \<le> (of_char c :: nat) \<and> (of_char c :: nat) \<le> 122)"

definition is_alphanumeric :: "char \<Rightarrow> bool" where
  "is_alphanumeric c = (is_upper c \<or> is_lower c \<or> is_digit c)"

definition ifscCode_form_of_spec :: "string \<Rightarrow> bool" where
  "ifscCode_form_of_spec s =
     (length s = 11 \<and> list_all is_upper (take 4 s) \<and> s ! 4 = CHR ''0''
      \<and> list_all is_alphanumeric (drop 5 s))"

text \<open>
  The uploads of a submission as the specification words them: one for each optional
  single file that is there, one for each product photo, in the order of the code.
\<close>

definition single_upload :: "js_file option \<Rightarrow> upload_type \<Rightarrow> request list" where
  "single_upload f ty = (case f of None \<Rightarrow> [] | Some x \<Rightarrow> [PostFile ''/upload'' x ty])"

definition scheduled_uploads :: "seller_form_data \<Rightarrow> request list" where
  "scheduled_uploads d =
     single_upload (sf_profilePhoto d) image_upload
     @ single_upload (sf_gstCertificate d) document_upload
     @ single_upload (sf_aadhaarProof d) document_upload
     @ map (\<lambda>photo. PostFile ''/upload'' photo image_upload) (sf_productPhotos d)
     @ single_upload (sf_craftVideo d) video_upload"

section \<open>Rejection, and the invariant of the upload schedule\<close>

definition is_rejected :: "'a settled \<Rightarrow> bool" where
  "is_rejected r = (case r of Rejected err \<Rightarrow> True | Fulfilled x \<Rightarrow> False)"

text \<open>
  Whenever a request of the trace is answered with a failure, one of the promises pushed
  so far is rejected.
\<close>

definition covered :: "network \<Rightarrow> 'a promise list \<times> request list \<Rightarrow> bool" where
  "covered net st \<longleftrightarrow>
     (\<forall>i < length (snd st). is_rejected (settle_fetch (fetched (net i (snd st ! i))))
        \<longrightarrow> (\<exists>p \<in> set (fst st). is_rejected (result p)))"

section \<open>Example inputs\<close>

text \<open>The example request of the specification, used to instantiate the theorems.\<close>

definition example_payload :: "(string \<times> json) list" where
  "example_payload =
     [ (''accountNumber'', JStr ''123456789''),
       (''ifscCode'', JStr ''ABCD0123456''),
       (''bankName'', JStr ''Test Bank''),
       (''name'', JStr ''Jane''),
       (''location'', JObj [(''city'', JStr ''Pune''), (''state'', JStr ''MH'')]),
       (''documentType'', JStr ''aadhar''),
       (''documentNumber'', JStr ''X1'') ]"

definition example_env :: env where
  "example_env = \<lparr> now = 1000, fresh_id = 7, findOne_succeeds = True, save_succeeds = True \<rparr>"

text \<open>What the example request validates to, and a record stored before the request.\<close>

definition example_request :: bank_request where
  "example_request =
     \<lparr> accountNumber = ''123456789'',
       ifscCode = ''ABCD0123456'',
       bankName = ''Test Bank'',
       name = ''Jane'',
       bio = None,
       location = \<lparr> city = ''Pune'', state = ''MH'', country = ''India'' \<rparr>,
       specialties = None,
       experience = None,
       socials = None,
       documentType = aadhar,
       documentNumber = ''X1'' \<rparr>"

definition example_artisan :: artisan where
  "example_artisan =
     \<lparr> artisan_id = 3,
       userId = 42,
       artisan_name = ''J. Doe'',
       artisan_bio = ''Potter'',
       artisan_location = \<lparr> city = ''Jaipur'', state = ''RJ'', country = ''India'' \<rparr>,
       artisan_specialties = [''pottery''],
       artisan_experience = 5,
       artisan_socials = \<lparr> instagram = Some ''jdoe'', facebook = None, website = None \<rparr>,
       artisan_verification =
         \<lparr> isVerified = False,
           ver_documentType = pan,
           ver_documentNumber = ''P0'',
           bankDetails = \<lparr> bank_accountNumber = ''000000000'',
                           bank_ifscCode = ''OLDB0000000'',
                           bank_bankName = ''Old Bank'' \<rparr>,
           verifiedAt = 1 \<rparr> \<rparr>"

text \<open>A submission without attachments, and a network that never answers.\<close>

definition example_form :: seller_form_data where
  "example_form =
     \<lparr> sf_businessName = ''Clay Works'',
       sf_ownerName = ''Jane'',
       sf_email = ''jane@example.com'',
       sf_phone = ''9999999999'',
       sf_address = \<lparr> village = ''V'', district = ''D'', address_state = ''MH'', pincode = ''411001'' \<rparr>,
       sf_yearsOfExperience = ''5'',
       sf_profilePhoto = None,
       sf_sellerType = ''individual'',
       sf_gstNumber = '''',
       sf_gstCertificate = None,
       sf_aadhaarNumber = ''1234'',
       sf_aadhaarProof = None,
       sf_panNumber = ''P1'',
       sf_categories = [''pottery''],
       sf_productDescription = ''Pots'',
       sf_materials = ''Clay'',
       sf_priceRange = \<lparr> price_min = ''100'', price_max = ''900'' \<rparr>,
       sf_stockQuantity = ''10'',
       sf_productPhotos = [],
       sf_pickupAddress = \<lparr> sameAsMain = True, pickup_address_address = '''' \<rparr>,
       sf_dispatchTime = ''2'',
       sf_packagingType = ''box'',
       sf_bankName = ''Test Bank'',
       sf_accountNumber = ''123456789'',
       sf_ifscCode = ''ABCD0123456'',
       sf_upiId = '''',
       sf_paymentFrequency = ''weekly'',
       sf_story = ''S'',
       sf_craftVideo = None \<rparr>"

definition offline :: network where
  "offline i req = \<lparr> settled_at = i, fetched = NoResponse \<rparr>"

text \<open>A server that answers every request with an error status and the body \<^verbatim>\<open>null\<close>.\<close>

definition null_error_server :: network where
  "null_error_server i req =
     \<lparr> settled_at = i, fetched = Response \<lparr> ok = False, json_body = Some JNull \<rparr> \<rparr>"

section \<open>Properties of the validation\<close>

subsection \<open>Collected issues\<close>

lemma errs_Inr [simp]: "errs (Inr x) = []"
  by (simp add: errs_def)

lemma errs_Inl [simp]: "errs (Inl es) = es"
  by (simp add: errs_def)

lemma errs_ap: "errs (ap f x) = errs f @ errs x"
  by (cases f; cases x) simp_all

lemma ap_Inr_iff: "ap f x = Inr y \<longleftrightarrow> (\<exists>g a. f = Inr g \<and> x = Inr a \<and> y = g a)"
  by (cases f; cases x) auto

lemma ap_Inl_Nil: "ap f x = Inl [] \<Longrightarrow> f = Inl [] \<or> x = Inl []"
  by (cases f; cases x) auto

text \<open>A failed parse always carries at least one issue.\<close>

lemma z_string_sound: "z_string cs p v \<noteq> Inl []"
  by (auto simp: z_string_def Let_def split: option.splits json.splits)

lemma z_number_min0_sound: "z_number_min0 p v \<noteq> Inl []"
  by (auto simp: z_number_min0_def split: option.splits json.splits)

lemma z_document_type_sound: "z_document_type p v \<noteq> Inl []"
  by (auto simp: z_document_type_def split: option.splits json.splits)

lemma z_optional_sound: "(\<And>w. inner w \<noteq> Inl []) \<Longrightarrow> z_optional inner v \<noteq> Inl []"
  by (auto simp: z_optional_def split: option.splits sum.splits)

lemma z_default_sound: "(\<And>w. inner w \<noteq> Inl []) \<Longrightarrow> z_default d inner v \<noteq> Inl []"
  by (auto simp: z_default_def split: option.splits)

lemma z_elems_sound: "z_elems p i xs \<noteq> Inl []"
proof (induction xs arbitrary: i)
  case Nil
  show ?case by simp
next
  case (Cons x xs)
  show ?case
    using Cons.IH[of "Suc i"] z_string_sound[of "[]" "p @ [Idx i]" "Some x"]
    by (auto dest!: ap_Inl_Nil)
qed

lemma z_string_array_sound: "z_string_array p v \<noteq> Inl []"
  by (auto simp: z_string_array_def z_elems_sound split: option.splits json.splits)

lemma z_location_sound: "z_location p v \<noteq> Inl []"
  by (auto simp: z_location_def z_string_sound z_default_sound
      split: option.splits json.splits dest!: ap_Inl_Nil)

lemma z_socials_sound: "z_socials is_url p v \<noteq> Inl []"
  by (auto simp: z_socials_def z_string_sound z_optional_sound
      split: option.splits json.splits dest!: ap_Inl_Nil)

lemma safeParse_sound: "safeParse is_url b \<noteq> Inl []"
  by (auto simp: safeParse_def accountNumber_schema_def ifscCode_schema_def
        z_string_sound z_optional_sound z_location_sound z_socials_sound
        z_document_type_sound z_number_min0_sound z_string_array_sound
      split: option.splits json.splits dest!: ap_Inl_Nil)

lemma safeParse_Inl_errs:
  "safeParse is_url b = Inl es \<longleftrightarrow> es = errs (safeParse is_url b) \<and> es \<noteq> []"
  using safeParse_sound[of is_url b] by (cases "safeParse is_url b") auto

subsection \<open>Where an issue points\<close>

lemma string_check_issues_path: "i \<in> set (string_check_issues p s c) \<Longrightarrow> path i = p"
  by (cases c) (auto split: if_splits)

lemma z_string_path: "i \<in> set (errs (z_string cs p v)) \<Longrightarrow> path i = p"
  by (auto simp: z_string_def Let_def string_check_issues_path
      split: option.splits json.splits if_splits)

lemma z_number_min0_path: "i \<in> set (errs (z_number_min0 p v)) \<Longrightarrow> path i = p"
  by (auto simp: z_number_min0_def split: option.splits json.splits if_splits)

lemma z_document_type_path: "i \<in> set (errs (z_document_type p v)) \<Longrightarrow> path i = p"
  by (auto simp: z_document_type_def split: option.splits json.splits if_splits)

lemma errs_z_optional:
  "errs (z_optional inner v) = (case v of None \<Rightarrow> [] | Some _ \<Rightarrow> errs (inner v))"
  by (auto simp: z_optional_def split: option.splits sum.splits)

lemma z_elems_path: "i \<in> set (errs (z_elems p n xs)) \<Longrightarrow> \<exists>k. path i = p @ [Idx k]"
  by (induction xs arbitrary: n) (auto simp: errs_ap dest: z_string_path)

lemma z_string_array_path:
  "i \<in> set (errs (z_string_array p v)) \<Longrightarrow> take (length p) (path i) = p"
  by (auto simp: z_string_array_def split: option.splits json.splits dest!: z_elems_path)

lemma z_location_path: "i \<in> set (errs (z_location p v)) \<Longrightarrow> take (length p) (path i) = p"
  by (auto simp: z_location_def errs_ap z_default_def
      split: option.splits json.splits dest!: z_string_path)

lemma z_socials_path:
  "i \<in> set (errs (z_socials is_url p v)) \<Longrightarrow> take (length p) (path i) = p"
  by (auto simp: z_socials_def errs_ap errs_z_optional
      split: option.splits json.splits dest!: z_string_path)

text \<open>The issues of an object body are the issues of its keys, in the order of the schema.\<close>

lemma errs_safeParse:
  "errs (safeParse is_url (Some (JObj kv))) =
     errs (accountNumber_schema [Key ''accountNumber''] (get_prop kv ''accountNumber''))
     @ errs (ifscCode_schema [Key ''ifscCode''] (get_prop kv ''ifscCode''))
     @ errs (z_string [MinLen 1, MaxLen 100] [Key ''bankName''] (get_prop kv ''bankName''))
     @ errs (z_string [MinLen 1, MaxLen 200] [Key ''name''] (get_prop kv ''name''))
     @ errs (z_optional (z_string [MaxLen 1000] [Key ''bio'']) (get_prop kv ''bio''))
     @ errs (z_location [Key ''location''] (get_prop kv ''location''))
     @ errs (z_optional (z_string_array [Key ''specialties'']) (get_prop kv ''specialties''))
     @ errs (z_optional (z_number_min0 [Key ''experience'']) (get_prop kv ''experience''))
     @ errs (z_optional (z_socials is_url [Key ''socials'']) (get_prop kv ''socials''))
     @ errs (z_document_type [Key ''documentType''] (get_prop kv ''documentType''))
     @ errs (z_string [MinLen 1] [Key ''documentNumber''] (get_prop kv ''documentNumber''))"
  by (simp add: safeParse_def errs_ap)

lemma errs_regex_field:
  "errs (z_string [Regex r msg] p (Some (JStr s))) =
     (if regex_test r s then [] else [Issue invalid_string p (Some msg)])"
  by (simp add: z_string_def)

subsection \<open>The two patterns\<close>

lemma nat_interval_cases: "lo \<le> (n::nat) \<Longrightarrow> n \<le> hi \<Longrightarrow> n \<in> set [lo..<Suc hi]"
  by auto

lemma is_digit_iff: "is_digit c \<longleftrightarrow> c \<in> set ''0123456789''"
proof
  assume "is_digit c"
  then have "(of_char c :: nat) \<in> set [48..<Suc 57]"
    unfolding is_digit_def by (intro nat_interval_cases) simp_all
  then have "char_of (of_char c :: nat) \<in> char_of ` set [48..<Suc 57 :: nat]"
    by (rule imageI)
  also have "char_of ` set [48..<Suc 57 :: nat] = set ''0123456789''"
    by code_simp
  finally show "c \<in> set ''0123456789''" by simp
next
  assume "c \<in> set ''0123456789''"
  then show "is_digit c" by (auto simp: is_digit_def)
qed

lemma is_upper_iff: "is_upper c \<longleftrightarrow> c \<in> set ''ABCDEFGHIJKLMNOPQRSTUVWXYZ''"
proof
  assume "is_upper c"
  then have "(of_char c :: nat) \<in> set [65..<Suc 90]"
    unfolding is_upper_def by (intro nat_interval_cases) simp_all
  then have "char_of (of_char c :: nat) \<in> char_of ` set [65..<Suc 90 :: nat]"
    by (rule imageI)
  also have "char_of ` set [65..<Suc 90 :: nat] = set ''ABCDEFGHIJKLMNOPQRSTUVWXYZ''"
    by code_simp
  finally show "c \<in> set ''ABCDEFGHIJKLMNOPQRSTUVWXYZ''" by simp
next
  assume "c \<in> set ''ABCDEFGHIJKLMNOPQRSTUVWXYZ''"
  then show "is_upper c" by (auto simp: is_upper_def)
qed

lemma regex_test_Cons:
  "regex_test ((c, lo, hi) # r) s \<longleftrightarrow>
     (\<exists>k. lo \<le> k \<and> k \<le> hi \<and> k \<le> length s
          \<and> list_all (in_class c) (take k s) \<and> regex_test r (drop k s))"
  by (auto simp: list_ex_iff)

lemma regex_test_exact:
  "regex_test ((c, n, n) # r) s \<longleftrightarrow>
     n \<le> length s \<and> list_all (in_class c) (take n s) \<and> regex_test r (drop n s)"
  unfolding regex_test_Cons by (auto simp: le_antisym)

lemma accountNumber_regex_iff:
  "regex_test accountNumber_regex s \<longleftrightarrow> 9 \<le> length s \<and> length s \<le> 18 \<and> list_all is_digit s"
proof -
  have "regex_test accountNumber_regex s \<longleftrightarrow>
        (\<exists>k. 9 \<le> k \<and> k \<le> 18 \<and> k \<le> length s \<and> list_all is_digit (take k s) \<and> length s \<le> k)"
    unfolding accountNumber_regex_def regex_test_Cons by (simp add: list_all_iff)
  also have "\<dots> \<longleftrightarrow> 9 \<le> length s \<and> length s \<le> 18 \<and> list_all is_digit s"
    by (metis le_antisym order_refl take_all)
  finally show ?thesis .
qed

lemma ifscCode_regex_iff:
  "regex_test ifscCode_regex s \<longleftrightarrow>
     length s = 11 \<and> list_all is_upper (take 4 s) \<and> s ! 4 = CHR ''0''
     \<and> list_all (\<lambda>c. is_upper c \<or> is_digit c) (drop 5 s)"
proof (cases "length s = 11")
  case True
  then have "take (Suc 0) (drop 4 s) = [s ! 4]"
    by (simp add: take_Suc_conv_app_nth)
  with True show ?thesis
    unfolding ifscCode_regex_def regex_test_exact by (auto simp: list_all_iff)
next
  case False
  then show ?thesis
    unfolding ifscCode_regex_def regex_test_exact by auto
qed

text \<open>The issues that point at one of the two pattern fields come from that field alone.\<close>

lemma accountNumber_issues:
  assumes "get_prop kv ''accountNumber'' = Some (JStr s)"
  shows "{i \<in> set (errs (safeParse is_url (Some (JObj kv)))). path i = [Key ''accountNumber'']}
           = (if regex_test accountNumber_regex s then {}
              else {Issue invalid_string [Key ''accountNumber'']
                      (Some ''Account number must be 9-18 digits'')})"
  using assms
  by (auto simp: errs_safeParse accountNumber_schema_def ifscCode_schema_def
      errs_regex_field errs_z_optional
      dest!: z_string_path z_document_type_path z_location_path z_socials_path z_number_min0_path
        z_string_array_path
      split: option.splits)

lemma ifscCode_issues:
  assumes "get_prop kv ''ifscCode'' = Some (JStr s)"
  shows "{i \<in> set (errs (safeParse is_url (Some (JObj kv)))). path i = [Key ''ifscCode'']}
           = (if regex_test ifscCode_regex s then {}
              else {Issue invalid_string [Key ''ifscCode''] (Some ''Invalid IFSC code format'')})"
  using assms
  by (auto simp: errs_safeParse accountNumber_schema_def ifscCode_schema_def
      errs_regex_field errs_z_optional
      dest!: z_string_path z_document_type_path z_location_path z_socials_path z_number_min0_path
        z_string_array_path
      split: option.splits)

lemma post_bank_account_invalid:
  "safeParse is_url b = Inl es \<Longrightarrow>
     post_bank_account is_url e uid b st =
       \<lparr> sent = \<lparr> status = 400, body = ErrorDetails ''Validation failed'' es \<rparr>,
         store_after = st, store_ops = [] \<rparr>"
  by (simp add: post_bank_account_def)

subsection \<open>Issues of an object body name a key\<close>



subsection \<open>A valid payload and the request it came from\<close>

lemma z_string_Inr: "z_string cs p v = Inr s \<Longrightarrow> v = Some (JStr s)"
  by (auto simp: z_string_def Let_def split: option.splits json.splits if_splits)

lemma z_optional_Inr:
  "z_optional inner v = Inr r \<Longrightarrow>
     (case v of None \<Rightarrow> r = None | Some _ \<Rightarrow> \<exists>x. r = Some x \<and> inner v = Inr x)"
  by (auto simp: z_optional_def split: option.splits sum.splits)

lemma safeParse_Inr_object: "safeParse is_url b = Inr d \<Longrightarrow> \<exists>kv. b = Some (JObj kv)"
  by (auto simp: safeParse_def split: option.splits json.splits)

lemma safeParse_Inr_fields:
  assumes "safeParse is_url (Some (JObj kv)) = Inr d"
  shows "get_prop kv ''accountNumber'' = Some (JStr (accountNumber d))"
    and "get_prop kv ''ifscCode'' = Some (JStr (ifscCode d))"
    and "get_prop kv ''bankName'' = Some (JStr (bankName d))"
    and "get_prop kv ''name'' = Some (JStr (name d))"
    and "get_prop kv ''documentNumber'' = Some (JStr (documentNumber d))"
    and "(bio d = None) = (get_prop kv ''bio'' = None)"
    and "(specialties d = None) = (get_prop kv ''specialties'' = None)"
    and "(experience d = None) = (get_prop kv ''experience'' = None)"
    and "(socials d = None) = (get_prop kv ''socials'' = None)"
    and "get_prop kv ''location'' \<noteq> None"
proof -
  from assms obtain a1 a2 a3 a4 a5 a6 a7 a8 a9 a10 a11 where
    f: "accountNumber_schema [Key ''accountNumber''] (get_prop kv ''accountNumber'') = Inr a1"
      "ifscCode_schema [Key ''ifscCode''] (get_prop kv ''ifscCode'') = Inr a2"
      "z_string [MinLen 1, MaxLen 100] [Key ''bankName''] (get_prop kv ''bankName'') = Inr a3"
      "z_string [MinLen 1, MaxLen 200] [Key ''name''] (get_prop kv ''name'') = Inr a4"
      "z_optional (z_string [MaxLen 1000] [Key ''bio'']) (get_prop kv ''bio'') = Inr a5"
      "z_location [Key ''location''] (get_prop kv ''location'') = Inr a6"
      "z_optional (z_string_array [Key ''specialties'']) (get_prop kv ''specialties'') = Inr a7"
      "z_optional (z_number_min0 [Key ''experience'']) (get_prop kv ''experience'') = Inr a8"
      "z_optional (z_socials is_url [Key ''socials'']) (get_prop kv ''socials'') = Inr a9"
      "z_document_type [Key ''documentType''] (get_prop kv ''documentType'') = Inr a10"
      "z_string [MinLen 1] [Key ''documentNumber''] (get_prop kv ''documentNumber'') = Inr a11"
    and d: "d = bank_request.make a1 a2 a3 a4 a5 a6 a7 a8 a9 a10 a11"
    unfolding safeParse_def by (simp add: ap_Inr_iff) (elim exE conjE, simp)
  have sel: "accountNumber d = a1" "ifscCode d = a2" "bankName d = a3" "name d = a4" "bio d = a5"
    "specialties d = a7" "experience d = a8" "socials d = a9" "documentNumber d = a11"
    by (simp_all add: d bank_request.defs)
  show "get_prop kv ''accountNumber'' = Some (JStr (accountNumber d))"
    using f(1) by (simp add: sel accountNumber_schema_def z_string_Inr)
  show "get_prop kv ''ifscCode'' = Some (JStr (ifscCode d))"
    using f(2) by (simp add: sel ifscCode_schema_def z_string_Inr)
  show "get_prop kv ''bankName'' = Some (JStr (bankName d))"
    using f(3) by (simp add: sel z_string_Inr)
  show "get_prop kv ''name'' = Some (JStr (name d))"
    using f(4) by (simp add: sel z_string_Inr)
  show "get_prop kv ''documentNumber'' = Some (JStr (documentNumber d))"
    using f(11) by (simp add: sel z_string_Inr)
  show "(bio d = None) = (get_prop kv ''bio'' = None)"
    using z_optional_Inr[OF f(5)] by (auto simp: sel split: option.splits)
  show "(specialties d = None) = (get_prop kv ''specialties'' = None)"
    using z_optional_Inr[OF f(7)] by (auto simp: sel split: option.splits)
  show "(experience d = None) = (get_prop kv ''experience'' = None)"
    using z_optional_Inr[OF f(8)] by (auto simp: sel split: option.splits)
  show "(socials d = None) = (get_prop kv ''socials'' = None)"
    using z_optional_Inr[OF f(9)] by (auto simp: sel split: option.splits)
  show "get_prop kv ''location'' \<noteq> None"
    using f(6) by (auto simp: z_location_def split: option.splits)
qed

subsection \<open>The update branch, field by field\<close>

lemma update_artisan_fields:
  "artisan_id (update_artisan e d a) = artisan_id a"
  "userId (update_artisan e d a) = userId a"
  "artisan_name (update_artisan e d a) = name d"
  "artisan_bio (update_artisan e d a) = (case bio d of None \<Rightarrow> artisan_bio a | Some x \<Rightarrow> x)"
  "artisan_location (update_artisan e d a) = location d"
  "artisan_specialties (update_artisan e d a) =
     (case specialties d of None \<Rightarrow> artisan_specialties a | Some x \<Rightarrow> x)"
  "artisan_experience (update_artisan e d a) =
     (case experience d of None \<Rightarrow> artisan_experience a | Some x \<Rightarrow> x)"
  "artisan_socials (update_artisan e d a) =
     (case socials d of None \<Rightarrow> artisan_socials a | Some x \<Rightarrow> x)"
  "artisan_verification (update_artisan e d a) =
     \<lparr> isVerified = True,
       ver_documentType = documentType d,
       ver_documentNumber = documentNumber d,
       bankDetails = \<lparr> bank_accountNumber = accountNumber d,
                       bank_ifscCode = ifscCode d,
                       bank_bankName = bankName d \<rparr>,
       verifiedAt = now e \<rparr>"
  by (simp_all add: update_artisan_def Let_def split: option.splits)

lemma run_update:
  assumes "safeParse is_url b = Inr d"
    and "findOne st uid = Some old" and "userId old = uid"
    and "findOne_succeeds e" and "save_succeeds e"
  shows "post_bank_account is_url e uid b st =
         \<lparr> sent = \<lparr> status = 200,
                    body = Success True ''Form validated and stored successfully''
                      \<lparr> view_id = artisan_id old, view_name = name d, view_isVerified = True \<rparr> \<rparr>,
           store_after = st(uid \<mapsto> update_artisan e d old),
           store_ops = [FindOne uid, Save (update_artisan e d old)] \<rparr>"
  unfolding post_bank_account_def Let_def save_def
  by (simp add: assms update_artisan_fields)

subsection \<open>The example request\<close>

lemma regex_example_account: "regex_test accountNumber_regex ''123456789''"
  unfolding accountNumber_regex_iff by (simp add: is_digit_def)

lemma regex_example_ifsc: "regex_test ifscCode_regex ''ABCD0123456''"
  unfolding ifscCode_regex_iff by (simp add: is_digit_def is_upper_def)


lemma safeParse_example:
  "safeParse is_url (Some (JObj example_payload)) = Inr example_request"
  by (simp add: safeParse_def example_payload_def example_request_def get_prop_def
      accountNumber_schema_def ifscCode_schema_def z_string_def z_optional_def z_location_def
      z_default_def z_document_type_def regex_example_account regex_example_ifsc
      bank_request.defs location.defs)


subsection \<open>The create branch\<close>

lemma or_string_empty: "or_string v [] = (case v of None \<Rightarrow> [] | Some x \<Rightarrow> x)"
  by (simp add: or_string_def split: option.splits)

lemma or_number_zero: "or_number v 0 = (case v of None \<Rightarrow> 0 | Some x \<Rightarrow> x)"
  by (simp add: or_number_def split: option.splits)

lemma new_artisan_verified: "isVerified (artisan_verification (new_artisan e uid d))"
  by (simp add: new_artisan_def)

lemma run_create:
  assumes "safeParse is_url b = Inr d"
    and "findOne st uid = None"
    and "findOne_succeeds e" and "save_succeeds e"
  shows "post_bank_account is_url e uid b st =
         \<lparr> sent = \<lparr> status = 200,
                    body = Success True ''Form validated and stored successfully''
                      \<lparr> view_id = fresh_id e, view_name = name d, view_isVerified = True \<rparr> \<rparr>,
           store_after = st(uid \<mapsto> new_artisan e uid d),
           store_ops = [FindOne uid, Save (new_artisan e uid d)] \<rparr>"
  unfolding post_bank_account_def Let_def save_def
  by (simp add: assms) (simp add: new_artisan_def)

section \<open>Properties of the client\<close>

subsection \<open>Promises\<close>

lemma is_rejected_simps [simp]:
  "is_rejected (Rejected err)" "\<not> is_rejected (Fulfilled x)"
  by (simp_all add: is_rejected_def)

lemma is_rejected_iff: "is_rejected r \<longleftrightarrow> (\<exists>err. r = Rejected err)"
  by (cases r) simp_all

lemma uploadFile_eq:
  "uploadFile net tr f ty =
     (\<lparr> settles = (settled_at (net (length tr) (PostFile ''/upload'' f ty)), 0),
        result = settle_fetch (fetched (net (length tr) (PostFile ''/upload'' f ty))) \<rparr>,
      tr @ [PostFile ''/upload'' f ty])"
  by (simp add: uploadFile_def fetch_def)

lemma first_rejection_None:
  "first_rejection ps = None \<longleftrightarrow> (\<forall>p \<in> set ps. \<not> is_rejected (result p))"
  by (induction ps) (auto split: settled.splits option.splits)

lemma first_rejection_Some:
  "first_rejection ps = Some (m, err) \<Longrightarrow> \<exists>p \<in> set ps. result p = Rejected err"
  by (induction ps arbitrary: m err) (auto split: settled.splits option.splits if_splits)

lemma Promise_all_Nil [simp]: "Promise_all [] = \<lparr> settles = (0, 1), result = Fulfilled [] \<rparr>"
  by (simp add: Promise_all_def one_job_after_def)

lemma Promise_all_rejected:
  "is_rejected (result (Promise_all ps)) \<longleftrightarrow> (\<exists>p \<in> set ps. is_rejected (result p))"
proof (cases "first_rejection ps")
  case None
  then show ?thesis
    by (simp add: Promise_all_def first_rejection_None[symmetric])
next
  case (Some a)
  then have "first_rejection ps \<noteq> None" by simp
  then have "\<exists>p \<in> set ps. is_rejected (result p)"
    unfolding first_rejection_None by blast
  with Some show ?thesis
    by (simp add: Promise_all_def split_beta)
qed

lemma Promise_all_reason:
  "result (Promise_all ps) = Rejected err \<Longrightarrow> \<exists>p \<in> set ps. result p = Rejected err"
  by (cases "first_rejection ps")
     (auto simp: Promise_all_def dest: first_rejection_Some)

lemma then_do_rejected: "is_rejected (result p) \<Longrightarrow> is_rejected (result (then_do f p))"
  by (auto simp: then_do_def is_rejected_iff)

subsection \<open>The upload schedule\<close>

lemma upload_photos_trace:
  "snd (upload_photos net tr photos) = tr @ map (\<lambda>photo. PostFile ''/upload'' photo image_upload) photos"
  by (induction photos arbitrary: tr) (simp_all add: uploadFile_eq split_beta)

lemma upload_photos_results:
  "map result (fst (upload_photos net tr photos)) =
     map (\<lambda>(i, photo). settle_fetch (fetched (net i (PostFile ''/upload'' photo image_upload))))
       (zip [length tr..<length tr + length photos] photos)"
proof (induction photos arbitrary: tr)
  case Nil
  show ?case by simp
next
  case (Cons photo photos)
  have "[length tr..<length tr + length (photo # photos)]
      = length tr # [Suc (length tr)..<Suc (length tr) + length photos]"
    by (simp add: upt_rec)
  then show ?case
    using Cons.IH[of "tr @ [PostFile ''/upload'' photo image_upload]"]
    by (simp add: uploadFile_eq split_beta)
qed

lemma push_single_trace:
  "snd (push_single net f ty key st) = snd st @ single_upload f ty"
  by (cases f) (simp_all add: push_single_def single_upload_def uploadFile_eq)

lemma push_photos_trace:
  "snd (push_photos net photos st) = snd st @ map (\<lambda>photo. PostFile ''/upload'' photo image_upload) photos"
  by (simp add: push_photos_def split_beta upload_photos_trace)

lemma schedule_uploads_trace: "snd (schedule_uploads net d) = scheduled_uploads d"
  by (simp add: schedule_uploads_def scheduled_uploads_def push_single_trace push_photos_trace)

lemma covered_empty: "covered net ([], [])"
  by (simp add: covered_def)

lemma push_single_covered:
  assumes "covered net st"
  shows "covered net (push_single net f ty key st)"
proof (cases f)
  case None
  with assms show ?thesis by (simp add: push_single_def)
next
  case (Some x)
  let ?req = "PostFile ''/upload'' x ty"
  let ?p = "fst (uploadFile net (snd st) x ty)"
  have st': "push_single net f ty key st = (fst st @ [then_do (url_object key) ?p], snd st @ [?req])"
    by (simp add: Some push_single_def uploadFile_eq)
  show ?thesis
    unfolding covered_def st'
  proof (intro allI impI)
    fix i
    assume i: "i < length (snd (fst st @ [then_do (url_object key) ?p], snd st @ [?req]))"
      and rej: "is_rejected (settle_fetch (fetched (net i
                  (snd (fst st @ [then_do (url_object key) ?p], snd st @ [?req]) ! i))))"
    show "\<exists>p \<in> set (fst (fst st @ [then_do (url_object key) ?p], snd st @ [?req])).
            is_rejected (result p)"
    proof (cases "i < length (snd st)")
      case True
      with rej have "is_rejected (settle_fetch (fetched (net i (snd st ! i))))"
        by (simp add: nth_append)
      with assms True obtain p where "p \<in> set (fst st)" "is_rejected (result p)"
        unfolding covered_def by blast
      then show ?thesis by auto
    next
      case False
      with i have "i = length (snd st)" by simp
      with rej have "is_rejected (result ?p)"
        by (simp add: uploadFile_eq)
      then have "is_rejected (result (then_do (url_object key) ?p))"
        by (rule then_do_rejected)
      then show ?thesis by simp
    qed
  qed
qed

lemma push_photos_covered:
  assumes "covered net st"
  shows "covered net (push_photos net photos st)"
proof (cases "photos = []")
  case True
  with assms show ?thesis by (simp add: push_photos_def)
next
  case False
  let ?qs = "fst (upload_photos net (snd st) photos)"
  let ?ext = "map (\<lambda>photo. PostFile ''/upload'' photo image_upload) photos"
  let ?p = "then_do urls_object (Promise_all ?qs)"
  have st': "push_photos net photos st = (fst st @ [?p], snd st @ ?ext)"
    using False by (simp add: push_photos_def split_beta upload_photos_trace)
  have len: "length ?qs = length photos"
    using arg_cong[OF upload_photos_results[of net "snd st" photos], of length] by simp
  show ?thesis
    unfolding covered_def st'
  proof (intro allI impI)
    fix i
    assume i: "i < length (snd (fst st @ [?p], snd st @ ?ext))"
      and rej: "is_rejected (settle_fetch (fetched (net i (snd (fst st @ [?p], snd st @ ?ext) ! i))))"
    show "\<exists>p \<in> set (fst (fst st @ [?p], snd st @ ?ext)). is_rejected (result p)"
    proof (cases "i < length (snd st)")
      case True
      with rej have "is_rejected (settle_fetch (fetched (net i (snd st ! i))))"
        by (simp add: nth_append)
      with assms True obtain p where "p \<in> set (fst st)" "is_rejected (result p)"
        unfolding covered_def by blast
      then show ?thesis by auto
    next
      case False
      define k where "k = i - length (snd st)"
      from False i have k: "k < length photos" and ik: "i = length (snd st) + k"
        by (simp_all add: k_def)
      from rej False k have r: "is_rejected (settle_fetch (fetched (net i
            (PostFile ''/upload'' (photos ! k) image_upload))))"
        by (simp add: nth_append k_def)
      have "map result ?qs ! k =
          settle_fetch (fetched (net i (PostFile ''/upload'' (photos ! k) image_upload)))"
        unfolding upload_photos_results using k by (simp add: ik)
      with r k len have "is_rejected (result (?qs ! k))" by simp
      moreover from k len have "?qs ! k \<in> set ?qs" by simp
      ultimately have "is_rejected (result (Promise_all ?qs))"
        unfolding Promise_all_rejected by blast
      then have "is_rejected (result ?p)" by (rule then_do_rejected)
      then show ?thesis by simp
    qed
  qed
qed

lemma schedule_uploads_covered: "covered net (schedule_uploads net d)"
  unfolding schedule_uploads_def
  by (intro push_single_covered push_photos_covered covered_empty)

lemma no_uploads:
  assumes "sf_profilePhoto d = None" and "sf_gstCertificate d = None"
    and "sf_aadhaarProof d = None" and "sf_craftVideo d = None" and "sf_productPhotos d = []"
  shows "schedule_uploads net d = ([], [])"
  by (simp add: schedule_uploads_def push_single_def push_photos_def assms)

subsection \<open>The registration payload\<close>

lemma wire_without_urls:
  "JSON_stringify (Obj (finalData d [])) =
     Some (JObj
       [ (''businessName'', JStr (sf_businessName d)),
         (''ownerName'', JStr (sf_ownerName d)),
         (''email'', JStr (sf_email d)),
         (''phone'', JStr (sf_phone d)),
         (''address'', JObj [ (''village'', JStr (village (sf_address d))),
                             (''district'', JStr (district (sf_address d))),
                             (''state'', JStr (address_state (sf_address d))),
                             (''pincode'', JStr (pincode (sf_address d))) ]),
         (''yearsOfExperience'', JStr (sf_yearsOfExperience d)),
         (''sellerType'', JStr (sf_sellerType d)),
         (''gstNumber'', JStr (sf_gstNumber d)),
         (''aadhaarNumber'', JStr (sf_aadhaarNumber d)),
         (''panNumber'', JStr (sf_panNumber d)),
         (''categories'', JArr (map JStr (sf_categories d))),
         (''productDescription'', JStr (sf_productDescription d)),
         (''materials'', JStr (sf_materials d)),
         (''priceRange'', JObj [ (''min'', JStr (price_min (sf_priceRange d))),
                                (''max'', JStr (price_max (sf_priceRange d))) ]),
         (''stockQuantity'', JStr (sf_stockQuantity d)),
         (''pickupAddress'', JObj [ (''sameAsMain'', JBool (sameAsMain (sf_pickupAddress d))),
                                   (''address'', JStr (pickup_address_address (sf_pickupAddress d))) ]),
         (''dispatchTime'', JStr (sf_dispatchTime d)),
         (''packagingType'', JStr (sf_packagingType d)),
         (''bankName'', JStr (sf_bankName d)),
         (''accountNumber'', JStr (sf_accountNumber d)),
         (''ifscCode'', JStr (sf_ifscCode d)),
         (''upiId'', JStr (sf_upiId d)),
         (''paymentFrequency'', JStr (sf_paymentFrequency d)),
         (''story'', JStr (sf_story d)) ])"
  by (simp add: finalData_def spread_data_def assign_def set_prop_def file_or_null_def o_def)

subsection \<open>The narrow verification call\<close>

lemma verifyBankAccount_body_eq:
  "verifyBankAccount_body ifsc acc = Some (JObj [(''ifsc'', JStr ifsc), (''accountNumber'', JStr acc)])"
  by (simp add: verifyBankAccount_body_def)

lemma errs_narrow_body:
  "errs (safeParse is_url (Some (JObj [(''ifsc'', JStr ifsc), (''accountNumber'', JStr acc)]))) =
     errs (accountNumber_schema [Key ''accountNumber''] (Some (JStr acc)))
     @ [ Issue invalid_type [Key ''ifscCode''] None,
         Issue invalid_type [Key ''bankName''] None,
         Issue invalid_type [Key ''name''] None,
         Issue invalid_type [Key ''location''] None,
         Issue invalid_type [Key ''documentType''] None,
         Issue invalid_type [Key ''documentNumber''] None ]"
  by (simp add: errs_safeParse get_prop_def ifscCode_schema_def z_string_def z_location_def
      z_document_type_def errs_z_optional)

subsection \<open>Responses that are not ok\<close>

text \<open>
  What \<^verbatim>\<open>handleResponse\<close> rejects with, by the shape of the error body, and
  what \<^verbatim>\<open>registerSeller\<close> returns once every pushed promise is fulfilled: the
  result of the registration request, issued after the uploads.
\<close>

lemma handleResponse_not_ok:
  assumes "\<not> ok r"
  shows "(\<exists>err. handleResponse r = Rejected err)
       \<and> (\<forall>kv m. json_body r = Some (JObj kv) \<and> get_prop kv ''message'' = Some (JStr m) \<and> m \<noteq> []
             \<longrightarrow> handleResponse r = Rejected (Error m))
       \<and> (json_body r = None \<longrightarrow> handleResponse r = Rejected (Error ''Something went wrong''))
       \<and> (\<forall>kv. json_body r = Some (JObj kv) \<and> get_prop kv ''message'' = None
             \<longrightarrow> handleResponse r = Rejected (Error ''Something went wrong''))
       \<and> (json_body r = Some JNull \<longrightarrow> handleResponse r = Rejected TypeError)
       \<and> settle_fetch (Response r) = handleResponse r
       \<and> (\<forall>(net :: network) tr f ty. fetched (net (length tr) (PostFile ''/upload'' f ty)) = Response r
             \<longrightarrow> result (fst (uploadFile net tr f ty)) = handleResponse r)"
proof (intro conjI allI impI)
  show "\<exists>err. handleResponse r = Rejected err"
    using assms by (auto simp: handleResponse_def Let_def split: option.splits json.splits)
next
  fix kv m
  assume "json_body r = Some (JObj kv) \<and> get_prop kv ''message'' = Some (JStr m) \<and> m \<noteq> []"
  then show "handleResponse r = Rejected (Error m)"
    using assms by (simp add: handleResponse_def truthy_def new_Error_def)
next
  assume "json_body r = None"
  then show "handleResponse r = Rejected (Error ''Something went wrong'')"
    using assms by (simp add: handleResponse_def get_prop_def)
next
  fix kv
  assume "json_body r = Some (JObj kv) \<and> get_prop kv ''message'' = None"
  then show "handleResponse r = Rejected (Error ''Something went wrong'')"
    using assms by (simp add: handleResponse_def)
next
  assume "json_body r = Some JNull"
  then show "handleResponse r = Rejected TypeError"
    using assms by (simp add: handleResponse_def)
next
  show "settle_fetch (Response r) = handleResponse r"
    by (simp add: settle_fetch_def)
next
  fix net :: network and tr :: "request list" and f ty
  assume "fetched (net (length tr) (PostFile ''/upload'' f ty)) = Response r"
  then show "result (fst (uploadFile net tr f ty)) = handleResponse r"
    by (simp add: uploadFile_eq settle_fetch_def)
qed

lemma registerSeller_result:
  fixes uploadResults :: "(string \<times> jsval) list list"
  defines "req \<equiv> \<lambda>d uploadResults. PostJson ''/sellers/register''
      (JSON_stringify (Obj (finalData d (fold (\<lambda>src target. assign target src) uploadResults []))))"
  assumes "result (Promise_all (fst (schedule_uploads net d))) = Fulfilled uploadResults"
  shows "registerSeller net d =
     (settle_fetch (fetched (net (length (scheduled_uploads d)) (req d uploadResults))),
      scheduled_uploads d @ [req d uploadResults])"
  using assms
  by (simp add: registerSeller_def split_beta fetch_def schedule_uploads_trace Let_def)

section \<open>The claims\<close>

text \<open>
  C1. A valid payload, a record stored for the caller, and a store that answers: the
  record is written back under the caller with the name of the request; bio,
  specialties, experience and socials are those of the request when the request has the
  key and those of the stored record when it has not; location, which every valid
  request has, is that of the request; and the verification block is exactly the
  verified flag set, the document declaration and bank details of the request and the
  current time, with nothing of the old block left. The response is the 200
  acknowledgement with the record's id and the new name.
\<close>

theorem update_branch:
  assumes "safeParse is_url b = Inr d"
    and "findOne st uid = Some old" and "userId old = uid"
    and "findOne_succeeds e" and "save_succeeds e"
  shows "\<exists>kv new. b = Some (JObj kv)
     \<and> post_bank_account is_url e uid b st =
         \<lparr> sent = \<lparr> status = 200,
                    body = Success True ''Form validated and stored successfully''
                      \<lparr> view_id = artisan_id old, view_name = name d, view_isVerified = True \<rparr> \<rparr>,
           store_after = st(uid \<mapsto> new),
           store_ops = [FindOne uid, Save new] \<rparr>
     \<and> artisan_id new = artisan_id old \<and> userId new = uid
     \<and> artisan_name new = name d
     \<and> artisan_bio new = (case bio d of None \<Rightarrow> artisan_bio old | Some x \<Rightarrow> x)
     \<and> (bio d = None) = (get_prop kv ''bio'' = None)
     \<and> artisan_location new = location d
     \<and> get_prop kv ''location'' \<noteq> None
     \<and> artisan_specialties new = (case specialties d of None \<Rightarrow> artisan_specialties old | Some x \<Rightarrow> x)
     \<and> (specialties d = None) = (get_prop kv ''specialties'' = None)
     \<and> artisan_experience new = (case experience d of None \<Rightarrow> artisan_experience old | Some x \<Rightarrow> x)
     \<and> (experience d = None) = (get_prop kv ''experience'' = None)
     \<and> artisan_socials new = (case socials d of None \<Rightarrow> artisan_socials old | Some x \<Rightarrow> x)
     \<and> (socials d = None) = (get_prop kv ''socials'' = None)
     \<and> artisan_verification new =
         \<lparr> isVerified = True,
           ver_documentType = documentType d,
           ver_documentNumber = documentNumber d,
           bankDetails = \<lparr> bank_accountNumber = accountNumber d,
                           bank_ifscCode = ifscCode d,
                           bank_bankName = bankName d \<rparr>,
           verifiedAt = now e \<rparr>"
proof -
  from safeParse_Inr_object[OF assms(1)] obtain kv where kv: "b = Some (JObj kv)" ..
  note pres = safeParse_Inr_fields(6-10)[OF assms(1)[unfolded kv]]
  let ?new = "update_artisan e d old"
  note run = run_update[OF assms]
  have own: "userId ?new = uid"
    by (simp add: update_artisan_fields assms(3))
  show ?thesis
    by (intro exI[of _ kv] exI[of _ ?new] conjI)
       (rule kv run pres own update_artisan_fields)+
qed

theorem update_branch_witness:
  "\<exists>new. store_after (post_bank_account (\<lambda>s. True) example_env 42
              (Some (JObj example_payload)) [42 \<mapsto> example_artisan]) = [42 \<mapsto> new]
     \<and> artisan_name new = ''Jane''
     \<and> artisan_bio new = ''Potter''
     \<and> artisan_location new = \<lparr> city = ''Pune'', state = ''MH'', country = ''India'' \<rparr>
     \<and> artisan_specialties new = [''pottery'']
     \<and> artisan_experience new = 5
     \<and> artisan_verification new =
         \<lparr> isVerified = True,
           ver_documentType = aadhar,
           ver_documentNumber = ''X1'',
           bankDetails = \<lparr> bank_accountNumber = ''123456789'',
                           bank_ifscCode = ''ABCD0123456'',
                           bank_bankName = ''Test Bank'' \<rparr>,
           verifiedAt = 1000 \<rparr>"
proof -
  have 1: "findOne [42 \<mapsto> example_artisan] 42 = Some example_artisan"
    by (simp add: findOne_def)
  have 2: "userId example_artisan = 42"
    by (simp add: example_artisan_def)
  have 3: "findOne_succeeds example_env" and 4: "save_succeeds example_env"
    by (simp_all add: example_env_def)
  from update_branch[OF safeParse_example 1 2 3 4, of "\<lambda>s. True"]
  show ?thesis
    apply (elim exE conjE)
    subgoal for kv new
      apply (rule exI[of _ new])
      apply (simp add: example_request_def example_artisan_def example_env_def)
      done
    done
qed

text \<open>
  C2. A valid payload, no record stored for the caller, and a store that answers: one
  record is written, under the caller, and the store had none there before. The record
  has the fresh id, the caller as owner, the profile fields of the request with an empty
  bio, no specialties, zero experience and empty socials where the request has none, and
  a verification block with the verified flag set, the document declaration and bank
  details of the request and the current time. The response is the 200 acknowledgement
  with that record's id and name.
\<close>

theorem create_branch:
  assumes "safeParse is_url b = Inr d"
    and "findOne st uid = None"
    and "findOne_succeeds e" and "save_succeeds e"
  shows "\<exists>new.
       post_bank_account is_url e uid b st =
         \<lparr> sent = \<lparr> status = 200,
                    body = Success True ''Form validated and stored successfully''
                      \<lparr> view_id = artisan_id new, view_name = artisan_name new,
                        view_isVerified = True \<rparr> \<rparr>,
           store_after = st(uid \<mapsto> new),
           store_ops = [FindOne uid, Save new] \<rparr>
     \<and> new =
         \<lparr> artisan_id = fresh_id e,
           userId = uid,
           artisan_name = name d,
           artisan_bio = (case bio d of None \<Rightarrow> [] | Some x \<Rightarrow> x),
           artisan_location = location d,
           artisan_specialties = (case specialties d of None \<Rightarrow> [] | Some x \<Rightarrow> x),
           artisan_experience = (case experience d of None \<Rightarrow> 0 | Some x \<Rightarrow> x),
           artisan_socials =
             (case socials d of
                None \<Rightarrow> \<lparr> instagram = None, facebook = None, website = None \<rparr>
              | Some x \<Rightarrow> x),
           artisan_verification =
             \<lparr> isVerified = True,
               ver_documentType = documentType d,
               ver_documentNumber = documentNumber d,
               bankDetails = \<lparr> bank_accountNumber = accountNumber d,
                               bank_ifscCode = ifscCode d,
                               bank_bankName = bankName d \<rparr>,
               verifiedAt = now e \<rparr> \<rparr>
     \<and> dom (store_after (post_bank_account is_url e uid b st)) = insert uid (dom st)
     \<and> uid \<notin> dom st"
proof -
  let ?new = "new_artisan e uid d"
  note run = run_create[OF assms]
  have view: "artisan_id ?new = fresh_id e" "artisan_name ?new = name d"
    by (simp_all add: new_artisan_def)
  have shape: "?new =
         \<lparr> artisan_id = fresh_id e,
           userId = uid,
           artisan_name = name d,
           artisan_bio = (case bio d of None \<Rightarrow> [] | Some x \<Rightarrow> x),
           artisan_location = location d,
           artisan_specialties = (case specialties d of None \<Rightarrow> [] | Some x \<Rightarrow> x),
           artisan_experience = (case experience d of None \<Rightarrow> 0 | Some x \<Rightarrow> x),
           artisan_socials =
             (case socials d of
                None \<Rightarrow> \<lparr> instagram = None, facebook = None, website = None \<rparr>
              | Some x \<Rightarrow> x),
           artisan_verification =
             \<lparr> isVerified = True,
               ver_documentType = documentType d,
               ver_documentNumber = documentNumber d,
               bankDetails = \<lparr> bank_accountNumber = accountNumber d,
                               bank_ifscCode = ifscCode d,
                               bank_bankName = bankName d \<rparr>,
               verifiedAt = now e \<rparr> \<rparr>"
    by (simp add: new_artisan_def or_string_empty or_number_zero or_object_def)
  have dom1: "dom (store_after (post_bank_account is_url e uid b st)) = insert uid (dom st)"
    by (simp add: run)
  have dom2: "uid \<notin> dom st"
    using assms(2) by (simp add: findOne_def domIff)
  have run': "post_bank_account is_url e uid b st =
         \<lparr> sent = \<lparr> status = 200,
                    body = Success True ''Form validated and stored successfully''
                      \<lparr> view_id = artisan_id ?new, view_name = artisan_name ?new,
                        view_isVerified = True \<rparr> \<rparr>,
           store_after = st(uid \<mapsto> ?new),
           store_ops = [FindOne uid, Save ?new] \<rparr>"
    by (simp only: run view)
  show ?thesis
    by (intro exI[of _ ?new] conjI) (rule run' shape dom1 dom2)+
qed

theorem create_branch_witness:
  "\<exists>new. post_bank_account (\<lambda>s. True) example_env 42 (Some (JObj example_payload)) Map.empty =
         \<lparr> sent = \<lparr> status = 200,
                    body = Success True ''Form validated and stored successfully''
                      \<lparr> view_id = 7, view_name = ''Jane'', view_isVerified = True \<rparr> \<rparr>,
           store_after = [42 \<mapsto> new],
           store_ops = [FindOne 42, Save new] \<rparr>
     \<and> artisan_bio new = []
     \<and> artisan_specialties new = []
     \<and> artisan_experience new = 0
     \<and> artisan_socials new = \<lparr> instagram = None, facebook = None, website = None \<rparr>
     \<and> artisan_verification new =
         \<lparr> isVerified = True,
           ver_documentType = aadhar,
           ver_documentNumber = ''X1'',
           bankDetails = \<lparr> bank_accountNumber = ''123456789'',
                           bank_ifscCode = ''ABCD0123456'',
                           bank_bankName = ''Test Bank'' \<rparr>,
           verifiedAt = 1000 \<rparr>"
proof -
  have 1: "findOne Map.empty 42 = None"
    by (simp add: findOne_def)
  have 2: "findOne_succeeds example_env" and 3: "save_succeeds example_env"
    by (simp_all add: example_env_def)
  from create_branch[OF safeParse_example 1 2 3, of "\<lambda>s. True"]
  show ?thesis
    apply (elim exE conjE)
    subgoal for new
      apply (rule exI[of _ new])
      apply (simp add: example_request_def example_env_def)
      done
    done
qed

text \<open>
  C3. When the request carries a string as accountNumber: if the string is 9 to 18
  decimal digits, validation raises no issue on accountNumber; if it is shorter than 9,
  longer than 18 or has a character that is no digit, validation fails with the issue
  of the accountNumber pattern, and the endpoint answers 400 with these issues.
\<close>

theorem accountNumber_rule:
  assumes "get_prop kv ''accountNumber'' = Some (JStr s)"
  shows "(9 \<le> length s \<and> length s \<le> 18 \<and> set s \<subseteq> set ''0123456789'' \<longrightarrow>
            (\<forall>i \<in> set (errs (safeParse is_url (Some (JObj kv)))). path i \<noteq> [Key ''accountNumber'']))
       \<and> (length s < 9 \<or> 18 < length s \<or> \<not> set s \<subseteq> set ''0123456789'' \<longrightarrow>
            (\<exists>es. safeParse is_url (Some (JObj kv)) = Inl es
               \<and> Issue invalid_string [Key ''accountNumber'']
                    (Some ''Account number must be 9-18 digits'') \<in> set es
               \<and> sent (post_bank_account is_url e uid (Some (JObj kv)) st)
                   = \<lparr> status = 400, body = ErrorDetails ''Validation failed'' es \<rparr>))"
proof -
  let ?bad = "Issue invalid_string [Key ''accountNumber''] (Some ''Account number must be 9-18 digits'')"
  let ?es = "errs (safeParse is_url (Some (JObj kv)))"
  have good: "regex_test accountNumber_regex s \<longleftrightarrow>
      9 \<le> length s \<and> length s \<le> 18 \<and> set s \<subseteq> set ''0123456789''"
    unfolding accountNumber_regex_iff list_all_iff is_digit_iff subset_eq ..
  note iss = accountNumber_issues[OF assms, of is_url]
  show ?thesis
  proof (intro conjI impI)
    assume "9 \<le> length s \<and> length s \<le> 18 \<and> set s \<subseteq> set ''0123456789''"
    with good iss have "{i \<in> set ?es. path i = [Key ''accountNumber'']} = {}" by simp
    then show "\<forall>i \<in> set ?es. path i \<noteq> [Key ''accountNumber'']" by blast
  next
    assume "length s < 9 \<or> 18 < length s \<or> \<not> set s \<subseteq> set ''0123456789''"
    with good have "\<not> regex_test accountNumber_regex s" by linarith
    with iss have "{i \<in> set ?es. path i = [Key ''accountNumber'']} = {?bad}" by simp
    then have bad: "?bad \<in> set ?es" by blast
    then have "?es \<noteq> []" by (cases ?es) simp_all
    then have "safeParse is_url (Some (JObj kv)) = Inl ?es"
      unfolding safeParse_Inl_errs by simp
    with bad show "\<exists>es. safeParse is_url (Some (JObj kv)) = Inl es \<and> ?bad \<in> set es
        \<and> sent (post_bank_account is_url e uid (Some (JObj kv)) st)
             = \<lparr> status = 400, body = ErrorDetails ''Validation failed'' es \<rparr>"
      by (intro exI[of _ ?es]) (simp add: post_bank_account_invalid)
  qed
qed

theorem accountNumber_rule_witness:
  "filter (\<lambda>i. path i = [Key ''accountNumber''])
     (errs (safeParse (\<lambda>s. True) (Some (JObj example_payload)))) = []
   \<and> (\<exists>es. safeParse (\<lambda>s. True)
              (Some (JObj (AList.update ''accountNumber'' (JStr ''12345'') example_payload))) = Inl es
         \<and> Issue invalid_string [Key ''accountNumber'']
              (Some ''Account number must be 9-18 digits'') \<in> set es)"
proof -
  have a: "get_prop example_payload ''accountNumber'' = Some (JStr ''123456789'')"
    by (simp add: example_payload_def get_prop_def)
  have b: "get_prop (AList.update ''accountNumber'' (JStr ''12345'') example_payload) ''accountNumber''
        = Some (JStr ''12345'')"
    by (simp add: example_payload_def get_prop_def)
  have g: "9 \<le> length ''123456789'' \<and> length ''123456789'' \<le> 18
      \<and> set ''123456789'' \<subseteq> set ''0123456789''"
    by simp
  have h: "length ''12345'' < 9 \<or> 18 < length ''12345'' \<or> \<not> set ''12345'' \<subseteq> set ''0123456789''"
    by simp
  from accountNumber_rule[OF a, of "\<lambda>s. True" example_env 0 Map.empty] g
  have "\<forall>i \<in> set (errs (safeParse (\<lambda>s. True) (Some (JObj example_payload)))).
      path i \<noteq> [Key ''accountNumber'']"
    by blast
  then have 1: "filter (\<lambda>i. path i = [Key ''accountNumber''])
      (errs (safeParse (\<lambda>s. True) (Some (JObj example_payload)))) = []"
    by (simp add: filter_empty_conv)
  from accountNumber_rule[OF b, of "\<lambda>s. True" example_env 0 Map.empty] h
  have 2: "\<exists>es. safeParse (\<lambda>s. True)
              (Some (JObj (AList.update ''accountNumber'' (JStr ''12345'') example_payload))) = Inl es
         \<and> Issue invalid_string [Key ''accountNumber'']
              (Some ''Account number must be 9-18 digits'') \<in> set es"
    by blast
  from 1 2 show ?thesis by (rule conjI)
qed

text \<open>
  C4 (as amended). When the request carries a string as ifscCode: if the string is 4
  uppercase letters, then a zero, then 6 characters each an uppercase letter or a digit,
  validation raises no issue on ifscCode; otherwise validation fails with the issue of
  the ifscCode pattern and the endpoint answers 400 with these issues.
\<close>

theorem ifscCode_rule_amended:
  assumes "get_prop kv ''ifscCode'' = Some (JStr s)"
  shows "(length s = 11 \<and> set (take 4 s) \<subseteq> set ''ABCDEFGHIJKLMNOPQRSTUVWXYZ'' \<and> s ! 4 = CHR ''0''
            \<and> set (drop 5 s) \<subseteq> set ''ABCDEFGHIJKLMNOPQRSTUVWXYZ0123456789'' \<longrightarrow>
            (\<forall>i \<in> set (errs (safeParse is_url (Some (JObj kv)))). path i \<noteq> [Key ''ifscCode'']))
       \<and> (\<not> (length s = 11 \<and> set (take 4 s) \<subseteq> set ''ABCDEFGHIJKLMNOPQRSTUVWXYZ'' \<and> s ! 4 = CHR ''0''
            \<and> set (drop 5 s) \<subseteq> set ''ABCDEFGHIJKLMNOPQRSTUVWXYZ0123456789'') \<longrightarrow>
            (\<exists>es. safeParse is_url (Some (JObj kv)) = Inl es
               \<and> Issue invalid_string [Key ''ifscCode''] (Some ''Invalid IFSC code format'') \<in> set es
               \<and> sent (post_bank_account is_url e uid (Some (JObj kv)) st)
                   = \<lparr> status = 400, body = ErrorDetails ''Validation failed'' es \<rparr>))"
proof -
  let ?bad = "Issue invalid_string [Key ''ifscCode''] (Some ''Invalid IFSC code format'')"
  let ?es = "errs (safeParse is_url (Some (JObj kv)))"
  let ?form = "length s = 11 \<and> set (take 4 s) \<subseteq> set ''ABCDEFGHIJKLMNOPQRSTUVWXYZ'' \<and> s ! 4 = CHR ''0''
            \<and> set (drop 5 s) \<subseteq> set ''ABCDEFGHIJKLMNOPQRSTUVWXYZ0123456789''"
  have ud: "is_upper c \<or> is_digit c \<longleftrightarrow> c \<in> set ''ABCDEFGHIJKLMNOPQRSTUVWXYZ0123456789''" for c
  proof -
    have "set ''ABCDEFGHIJKLMNOPQRSTUVWXYZ0123456789'' =
        set ''ABCDEFGHIJKLMNOPQRSTUVWXYZ'' \<union> set ''0123456789''"
      by (simp only: set_append[symmetric] append.simps)
    then show ?thesis
      unfolding is_upper_iff is_digit_iff by blast
  qed
  have la1: "list_all (\<lambda>c. is_upper c \<or> is_digit c) xs
      \<longleftrightarrow> set xs \<subseteq> set ''ABCDEFGHIJKLMNOPQRSTUVWXYZ0123456789''" for xs
    by (simp only: list_all_iff subset_eq ud)
  have la2: "list_all is_upper xs \<longleftrightarrow> set xs \<subseteq> set ''ABCDEFGHIJKLMNOPQRSTUVWXYZ''" for xs
    unfolding list_all_iff subset_eq using is_upper_iff by blast
  have good: "regex_test ifscCode_regex s \<longleftrightarrow> ?form"
    unfolding ifscCode_regex_iff la1 la2 ..
  note iss = ifscCode_issues[OF assms, of is_url]
  show ?thesis
  proof (intro conjI impI)
    assume ?form
    with good iss have "{i \<in> set ?es. path i = [Key ''ifscCode'']} = {}" by simp
    then show "\<forall>i \<in> set ?es. path i \<noteq> [Key ''ifscCode'']" by blast
  next
    assume "\<not> ?form"
    with good have "\<not> regex_test ifscCode_regex s" by blast
    with iss have "{i \<in> set ?es. path i = [Key ''ifscCode'']} = {?bad}" by simp
    then have bad: "?bad \<in> set ?es" by blast
    then have "?es \<noteq> []" by (cases ?es) simp_all
    then have "safeParse is_url (Some (JObj kv)) = Inl ?es"
      unfolding safeParse_Inl_errs by simp
    with bad show "\<exists>es. safeParse is_url (Some (JObj kv)) = Inl es \<and> ?bad \<in> set es
        \<and> sent (post_bank_account is_url e uid (Some (JObj kv)) st)
             = \<lparr> status = 400, body = ErrorDetails ''Validation failed'' es \<rparr>"
      by (intro exI[of _ ?es]) (simp add: post_bank_account_invalid)
  qed
qed

theorem ifscCode_rule_amended_witness:
  "filter (\<lambda>i. path i = [Key ''ifscCode''])
     (errs (safeParse (\<lambda>s. True) (Some (JObj example_payload)))) = []
   \<and> (\<exists>es. safeParse (\<lambda>s. True)
              (Some (JObj (AList.update ''ifscCode'' (JStr ''SBIN0abc123'') example_payload))) = Inl es
         \<and> Issue invalid_string [Key ''ifscCode''] (Some ''Invalid IFSC code format'') \<in> set es)"
proof -
  have a: "get_prop example_payload ''ifscCode'' = Some (JStr ''ABCD0123456'')"
    by (simp add: example_payload_def get_prop_def)
  have b: "get_prop (AList.update ''ifscCode'' (JStr ''SBIN0abc123'') example_payload) ''ifscCode''
        = Some (JStr ''SBIN0abc123'')"
    by (simp add: example_payload_def get_prop_def)
  have g: "length ''ABCD0123456'' = 11
      \<and> set (take 4 ''ABCD0123456'') \<subseteq> set ''ABCDEFGHIJKLMNOPQRSTUVWXYZ''
      \<and> ''ABCD0123456'' ! 4 = CHR ''0''
      \<and> set (drop 5 ''ABCD0123456'') \<subseteq> set ''ABCDEFGHIJKLMNOPQRSTUVWXYZ0123456789''"
    by simp
  have h: "\<not> (length ''SBIN0abc123'' = 11
      \<and> set (take 4 ''SBIN0abc123'') \<subseteq> set ''ABCDEFGHIJKLMNOPQRSTUVWXYZ''
      \<and> ''SBIN0abc123'' ! 4 = CHR ''0''
      \<and> set (drop 5 ''SBIN0abc123'') \<subseteq> set ''ABCDEFGHIJKLMNOPQRSTUVWXYZ0123456789'')"
    by simp
  from ifscCode_rule_amended[OF a, of "\<lambda>s. True" example_env 0 Map.empty] g
  have "\<forall>i \<in> set (errs (safeParse (\<lambda>s. True) (Some (JObj example_payload)))).
      path i \<noteq> [Key ''ifscCode'']"
    by blast
  then have 1: "filter (\<lambda>i. path i = [Key ''ifscCode''])
      (errs (safeParse (\<lambda>s. True) (Some (JObj example_payload)))) = []"
    by (simp add: filter_empty_conv)
  from ifscCode_rule_amended[OF b, of "\<lambda>s. True" example_env 0 Map.empty] h
  have 2: "\<exists>es. safeParse (\<lambda>s. True)
              (Some (JObj (AList.update ''ifscCode'' (JStr ''SBIN0abc123'') example_payload))) = Inl es
         \<and> Issue invalid_string [Key ''ifscCode''] (Some ''Invalid IFSC code format'') \<in> set es"
    by blast
  from 1 2 show ?thesis by (rule conjI)
qed

text \<open>
  The claim as the specification words it fails on lowercase letters: this string is 4
  uppercase letters, a zero and 6 alphanumeric characters, and the ifscCode rule
  rejects it.
\<close>

theorem ifscCode_lowercase_counterexample:
  "ifscCode_form_of_spec ''SBIN0abc123''
   \<and> ifscCode_schema [Key ''ifscCode''] (Some (JStr ''SBIN0abc123''))
       = Inl [Issue invalid_string [Key ''ifscCode''] (Some ''Invalid IFSC code format'')]"
proof -
  have 1: "ifscCode_form_of_spec ''SBIN0abc123''"
    by (simp add: ifscCode_form_of_spec_def is_alphanumeric_def is_upper_def is_lower_def is_digit_def)
  have "\<not> regex_test ifscCode_regex ''SBIN0abc123''"
    unfolding ifscCode_regex_iff by (simp add: is_upper_def is_digit_def)
  then have 2: "ifscCode_schema [Key ''ifscCode''] (Some (JStr ''SBIN0abc123''))
       = Inl [Issue invalid_string [Key ''ifscCode''] (Some ''Invalid IFSC code format'')]"
    by (simp add: ifscCode_schema_def z_string_def)
  from 1 2 show ?thesis by (rule conjI)
qed




text \<open>
  C6. For every pair of strings, \<^verbatim>\<open>verifyBankAccount\<close> posts a body with the
  two keys ifsc and accountNumber and nothing else. Validation of that body fails, with
  a missing-value issue for each of ifscCode, bankName, name, location, documentType and
  documentNumber, so the endpoint answers 400, never 200, whatever the store and the
  environment.
\<close>

theorem verifyBankAccount_never_succeeds:
  "verifyBankAccount_body ifsc acc
     = Some (JObj [(''ifsc'', JStr ifsc), (''accountNumber'', JStr acc)])
   \<and> snd (verifyBankAccount net ifsc acc)
       = [PostJson ''/verify/bank-account'' (verifyBankAccount_body ifsc acc)]
   \<and> (\<exists>es. safeParse is_url (verifyBankAccount_body ifsc acc) = Inl es
          \<and> set [ Issue invalid_type [Key ''ifscCode''] None,
                  Issue invalid_type [Key ''bankName''] None,
                  Issue invalid_type [Key ''name''] None,
                  Issue invalid_type [Key ''location''] None,
                  Issue invalid_type [Key ''documentType''] None,
                  Issue invalid_type [Key ''documentNumber''] None ] \<subseteq> set es
          \<and> post_bank_account is_url e uid (verifyBankAccount_body ifsc acc) st =
              \<lparr> sent = \<lparr> status = 400, body = ErrorDetails ''Validation failed'' es \<rparr>,
                store_after = st, store_ops = [] \<rparr>)
   \<and> status (sent (post_bank_account is_url e uid (verifyBankAccount_body ifsc acc) st)) \<noteq> 200"
proof -
  let ?b = "Some (JObj [(''ifsc'', JStr ifsc), (''accountNumber'', JStr acc)])"
  let ?es = "errs (safeParse is_url ?b)"
  have ne: "?es \<noteq> []"
    unfolding errs_narrow_body by simp
  then have inl: "safeParse is_url ?b = Inl ?es"
    unfolding safeParse_Inl_errs by simp
  have sub: "set [ Issue invalid_type [Key ''ifscCode''] None,
                  Issue invalid_type [Key ''bankName''] None,
                  Issue invalid_type [Key ''name''] None,
                  Issue invalid_type [Key ''location''] None,
                  Issue invalid_type [Key ''documentType''] None,
                  Issue invalid_type [Key ''documentNumber''] None ] \<subseteq> set ?es"
    unfolding errs_narrow_body by (simp only: set_append) (rule Un_upper2)
  note post = post_bank_account_invalid[OF inl, of e uid st]
  have tr: "snd (verifyBankAccount net ifsc acc)
       = [PostJson ''/verify/bank-account'' (verifyBankAccount_body ifsc acc)]"
    by (simp add: verifyBankAccount_def fetch_def)
  have st: "status (sent (post_bank_account is_url e uid ?b st)) \<noteq> 200"
    by (simp add: post)
  show ?thesis
    unfolding tr unfolding verifyBankAccount_body_eq
    using inl sub post st by blast
qed

theorem verifyBankAccount_never_succeeds_witness:
  "status (sent (post_bank_account (\<lambda>s. True) example_env 42
      (verifyBankAccount_body ''ABCD0123456'' ''123456789'') Map.empty)) \<noteq> 200
   \<and> snd (verifyBankAccount offline ''ABCD0123456'' ''123456789'')
       = [PostJson ''/verify/bank-account''
            (Some (JObj [(''ifsc'', JStr ''ABCD0123456''), (''accountNumber'', JStr ''123456789'')]))]"
proof -
  note t = verifyBankAccount_never_succeeds[of "''ABCD0123456''" "''123456789''" offline
      "\<lambda>s. True" example_env 42 Map.empty]
  note body = t[THEN conjunct1]
  note trace = t[THEN conjunct2, THEN conjunct1]
  note never = t[THEN conjunct2, THEN conjunct2, THEN conjunct2]
  from never trace[unfolded body] show ?thesis by (rule conjI)
qed

text \<open>
  C7. When one of the uploads scheduled for a submission fails (the network gives no
  response, or the response is turned into an error), \<^verbatim>\<open>registerSeller\<close> is
  rejected with the error of one of the promises it has pushed, the requests it has
  issued are the uploads alone, and none of them is a JSON post: the registration
  request is not sent.
\<close>

theorem failed_upload_fails_registration:
  assumes "i < length (snd (schedule_uploads net d))"
    and "is_rejected (settle_fetch (fetched (net i (snd (schedule_uploads net d) ! i))))"
  shows "(\<exists>err. fst (registerSeller net d) = Rejected err
            \<and> (\<exists>p \<in> set (fst (schedule_uploads net d)). result p = Rejected err))
       \<and> snd (registerSeller net d) = snd (schedule_uploads net d)
       \<and> snd (schedule_uploads net d) = scheduled_uploads d
       \<and> (\<forall>url b. PostJson url b \<notin> set (snd (registerSeller net d)))"
proof -
  let ?st = "schedule_uploads net d"
  have tr: "snd ?st = scheduled_uploads d"
    by (rule schedule_uploads_trace)
  from schedule_uploads_covered[of net d] assms
  have "\<exists>p \<in> set (fst ?st). is_rejected (result p)"
    unfolding covered_def by blast
  then have "is_rejected (result (Promise_all (fst ?st)))"
    unfolding Promise_all_rejected .
  then obtain err where err: "result (Promise_all (fst ?st)) = Rejected err"
    unfolding is_rejected_iff ..
  from Promise_all_reason[OF err]
  have src: "\<exists>p \<in> set (fst ?st). result p = Rejected err" .
  have run: "registerSeller net d = (Rejected err, scheduled_uploads d)"
    by (simp add: registerSeller_def split_beta err tr)
  have files: "PostJson url b \<notin> set (scheduled_uploads d)" for url b
    by (auto simp: scheduled_uploads_def single_upload_def split: option.splits)
  show ?thesis
    using src by (simp add: run files tr)
qed

theorem failed_upload_fails_registration_witness:
  "(\<exists>err. fst (registerSeller offline (example_form\<lparr> sf_profilePhoto := Some (File ''me.png'') \<rparr>))
            = Rejected err)
   \<and> snd (registerSeller offline (example_form\<lparr> sf_profilePhoto := Some (File ''me.png'') \<rparr>))
       = [PostFile ''/upload'' (File ''me.png'') image_upload]"
proof -
  let ?d = "example_form\<lparr> sf_profilePhoto := Some (File ''me.png'') \<rparr>"
  have s: "scheduled_uploads ?d = [PostFile ''/upload'' (File ''me.png'') image_upload]"
    by (simp add: scheduled_uploads_def single_upload_def example_form_def)
  have 1: "0 < length (snd (schedule_uploads offline ?d))"
    by (simp add: schedule_uploads_trace s)
  have 2: "is_rejected (settle_fetch (fetched (offline 0 (snd (schedule_uploads offline ?d) ! 0))))"
    by (simp add: offline_def settle_fetch_def)
  note t = failed_upload_fails_registration[where i = 0 and d = ?d and net = offline, OF 1 2]
  from t[THEN conjunct1]
  have A: "\<exists>err. fst (registerSeller offline ?d) = Rejected err" by blast
  from t[THEN conjunct2]
  have B: "snd (registerSeller offline ?d) = [PostFile ''/upload'' (File ''me.png'') image_upload]"
    by (simp add: schedule_uploads_trace s)
  from A B show ?thesis by (rule conjI)
qed

text \<open>
  C8. A submission without attachments issues one request, the registration post, and
  no upload. The body of the post has the 24 plain fields of the form and no other key:
  none of the five file-derived fields and none of the five raw file fields is there,
  not even as null.
\<close>

theorem no_attachments_payload:
  assumes "sf_profilePhoto d = None" and "sf_gstCertificate d = None"
    and "sf_aadhaarProof d = None" and "sf_craftVideo d = None" and "sf_productPhotos d = []"
  shows "\<exists>kv. snd (registerSeller net d) = [PostJson ''/sellers/register'' (Some (JObj kv))]
     \<and> map fst kv =
         [ ''businessName'', ''ownerName'', ''email'', ''phone'', ''address'', ''yearsOfExperience'',
           ''sellerType'', ''gstNumber'', ''aadhaarNumber'', ''panNumber'', ''categories'',
           ''productDescription'', ''materials'', ''priceRange'', ''stockQuantity'',
           ''pickupAddress'', ''dispatchTime'', ''packagingType'', ''bankName'', ''accountNumber'',
           ''ifscCode'', ''upiId'', ''paymentFrequency'', ''story'' ]
     \<and> (\<forall>k \<in> set [ ''profilePhotoUrl'', ''gstCertificateUrl'', ''aadhaarProofUrl'',
                    ''productPhotoUrls'', ''craftVideoUrl'', ''profilePhoto'', ''gstCertificate'',
                    ''aadhaarProof'', ''productPhotos'', ''craftVideo'' ].
           get_prop kv k = None)
     \<and> (\<forall>url f ty. PostFile url f ty \<notin> set (snd (registerSeller net d)))"
proof -
  have run: "snd (registerSeller net d) =
      [PostJson ''/sellers/register'' (JSON_stringify (Obj (finalData d [])))]"
    by (simp add: registerSeller_def no_uploads[OF assms] fetch_def)
  show ?thesis
    unfolding run wire_without_urls
    by (rule exI, intro conjI, rule refl) (simp_all add: get_prop_def)
qed

theorem no_attachments_payload_witness:
  "\<exists>kv. snd (registerSeller offline example_form)
           = [PostJson ''/sellers/register'' (Some (JObj kv))]
     \<and> get_prop kv ''businessName'' = Some (JStr ''Clay Works'')
     \<and> get_prop kv ''profilePhoto'' = None
     \<and> get_prop kv ''profilePhotoUrl'' = None
     \<and> get_prop kv ''productPhotos'' = None
     \<and> get_prop kv ''productPhotoUrls'' = None"
proof -
  have a: "sf_profilePhoto example_form = None" "sf_gstCertificate example_form = None"
    "sf_aadhaarProof example_form = None" "sf_craftVideo example_form = None"
    "sf_productPhotos example_form = []"
    by (simp_all add: example_form_def)
  have run: "snd (registerSeller offline example_form) =
      [PostJson ''/sellers/register'' (JSON_stringify (Obj (finalData example_form [])))]"
    by (simp add: registerSeller_def no_uploads[OF a] fetch_def)
  from no_attachments_payload[OF a, of offline]
  obtain kv where kv: "snd (registerSeller offline example_form)
           = [PostJson ''/sellers/register'' (Some (JObj kv))]"
    and none: "\<forall>k \<in> set [ ''profilePhotoUrl'', ''gstCertificateUrl'', ''aadhaarProofUrl'',
                    ''productPhotoUrls'', ''craftVideoUrl'', ''profilePhoto'', ''gstCertificate'',
                    ''aadhaarProof'', ''productPhotos'', ''craftVideo'' ].
           get_prop kv k = None"
    by (elim exE conjE)
  from kv have "kv = the_kv" if "JSON_stringify (Obj (finalData example_form [])) = Some (JObj the_kv)"
    for the_kv
    using that by (simp add: run)
  from this[OF wire_without_urls]
  have "get_prop kv ''businessName'' = Some (JStr ''Clay Works'')"
    by (simp add: get_prop_def example_form_def)
  with kv none show ?thesis
    by (intro exI[of _ kv]) simp
qed

text \<open>
  C9. The claim asks that every response that is not ok ends in one error with the
  server's message or with "Something went wrong". On an error body that is the JSON
  value null the code does neither: the read of \<^verbatim>\<open>error.message\<close> throws, and
  the upload and the registration call are rejected with that type error.
\<close>

theorem handleResponse_null_body:
  "handleResponse \<lparr> ok = False, json_body = Some JNull \<rparr> = Rejected TypeError
   \<and> result (fst (uploadFile null_error_server [] (File ''me.png'') image_upload))
       = Rejected TypeError
   \<and> fst (registerSeller null_error_server example_form) = Rejected TypeError"
proof -
  have 1: "handleResponse \<lparr> ok = False, json_body = Some JNull \<rparr> = Rejected TypeError"
    by (simp add: handleResponse_def)
  have 2: "result (fst (uploadFile null_error_server [] (File ''me.png'') image_upload))
       = Rejected TypeError"
    by (simp add: uploadFile_eq null_error_server_def settle_fetch_def 1)
  have a: "sf_profilePhoto example_form = None" "sf_gstCertificate example_form = None"
    "sf_aadhaarProof example_form = None" "sf_craftVideo example_form = None"
    "sf_productPhotos example_form = []"
    by (simp_all add: example_form_def)
  have 3: "fst (registerSeller null_error_server example_form) = Rejected TypeError"
    by (simp add: registerSeller_def no_uploads[OF a] fetch_def null_error_server_def
        settle_fetch_def 1)
  from 1 2 3 show ?thesis by blast
qed

text \<open>
  C10. Whenever the endpoint answers 200, the acknowledgement says verified, the record
  it acknowledges is the one it has written, and that record has the verified flag set;
  and every record the handler hands to the store for saving, in any run, has the flag
  set.
\<close>

theorem success_reports_verified:
  "(status (sent (post_bank_account is_url e uid b st)) = 200 \<longrightarrow>
      (\<exists>a. post_bank_account is_url e uid b st =
              \<lparr> sent = \<lparr> status = 200,
                         body = Success True ''Form validated and stored successfully''
                           \<lparr> view_id = artisan_id a, view_name = artisan_name a,
                             view_isVerified = True \<rparr> \<rparr>,
                store_after = st(userId a \<mapsto> a),
                store_ops = [FindOne uid, Save a] \<rparr>
          \<and> isVerified (artisan_verification a)))
   \<and> (\<forall>a. Save a \<in> set (store_ops (post_bank_account is_url e uid b st)) \<longrightarrow>
          isVerified (artisan_verification a))"
proof -
  define a where "a d = (case findOne st uid of
                       None \<Rightarrow> new_artisan e uid d
                     | Some found \<Rightarrow> update_artisan e d found)" for d
  have ver: "isVerified (artisan_verification (a d))" for d
    by (simp add: a_def new_artisan_verified update_artisan_fields split: option.splits)
  show ?thesis
  proof (cases "safeParse is_url b")
    case (Inl es)
    then show ?thesis by (simp add: post_bank_account_def)
  next
    case (Inr d)
    have unf: "post_bank_account is_url e uid b st =
       (if \<not> findOne_succeeds e then
            \<lparr> sent = server_error, store_after = st, store_ops = [FindOne uid] \<rparr>
        else if \<not> save_succeeds e then
                 \<lparr> sent = server_error, store_after = st, store_ops = [FindOne uid, Save (a d)] \<rparr>
               else
                 \<lparr> sent =
                     \<lparr> status = 200,
                       body = Success True ''Form validated and stored successfully''
                         \<lparr> view_id = artisan_id (a d),
                           view_name = artisan_name (a d),
                           view_isVerified = isVerified (artisan_verification (a d)) \<rparr> \<rparr>,
                   store_after = save (a d) st,
                   store_ops = [FindOne uid, Save (a d)] \<rparr>)"
      by (simp add: post_bank_account_def Inr Let_def a_def)
    show ?thesis
      unfolding unf using ver[of d]
      by (auto simp: server_error_def save_def)
  qed
qed

theorem success_reports_verified_witness:
  "\<exists>a. post_bank_account (\<lambda>s. True) example_env 42 (Some (JObj example_payload))
           [42 \<mapsto> example_artisan] =
          \<lparr> sent = \<lparr> status = 200,
                     body = Success True ''Form validated and stored successfully''
                       \<lparr> view_id = artisan_id a, view_name = artisan_name a,
                         view_isVerified = True \<rparr> \<rparr>,
            store_after = [42 \<mapsto> example_artisan](userId a \<mapsto> a),
            store_ops = [FindOne 42, Save a] \<rparr>
      \<and> isVerified (artisan_verification a)"
proof -
  have 1: "findOne [42 \<mapsto> example_artisan] 42 = Some example_artisan"
    by (simp add: findOne_def)
  have 2: "userId example_artisan = 42"
    by (simp add: example_artisan_def)
  have 3: "findOne_succeeds example_env" and 4: "save_succeeds example_env"
    by (simp_all add: example_env_def)
  have "status (sent (post_bank_account (\<lambda>s. True) example_env 42 (Some (JObj example_payload))
           [42 \<mapsto> example_artisan])) = 200"
    by (simp add: run_update[OF safeParse_example 1 2 3 4])
  with success_reports_verified[of "\<lambda>s. True" example_env 42 "Some (JObj example_payload)"
      "[42 \<mapsto> example_artisan]"]
  show ?thesis by blast
qed

end
